theory Spec2Isabelle
  imports Main "HOL-Library.Word" "HOL-Library.Signed_Division" "HOL-Library.Sublist"
begin

text \<open>
  A shallow embedding of the Telegram bot that turns a YouTube link into MP3 audio
  (package \<open>main\<close>: \<open>handleMessage\<close>, \<open>downloadMp3\<close>, \<open>checkAndSendFile\<close>,
  \<open>splitFile\<close>, \<open>calculateSegmentTime\<close>, \<open>sendFile\<close>, \<open>isValidYouTubeURL\<close>), in the
  version that splits large files with ffmpeg.  Every function that touches the
  outside takes the world and returns the new one; a Go \<open>error\<close> is the text of
  \<open>err.Error()\<close>, \<open>None\<close> standing for \<open>nil\<close>; a run-time panic is the left summand
  of the result.  One request is followed from its message to its end; the requests
  that the bot serves at the same time in other goroutines are not part of the model,
  and neither is log output: the sources are quoted without their log statements.
\<close>

section \<open>Machine integers of the Go source\<close>

text \<open>
  \<open>int64\<close> is a 64-bit word read as two's complement (\<open>sint\<close>); Go's \<open>int\<close> is taken
  at its width on the 64-bit platforms, so the conversions \<open>int64(...)\<close> and
  \<open>int(...)\<close> of \<open>calculateSegmentTime\<close> are the identity.  Go's integer division
  truncates towards zero, wraps around on overflow and panics with "integer divide by
  zero" on a zero divisor.
\<close>

type_synonym int64 = "64 word"

datatype go_panic = DivideByZero

definition int64_div :: "int64 \<Rightarrow> int64 \<Rightarrow> go_panic + int64" where
  "int64_div a b =
     (if b = 0 then Inl DivideByZero else Inr (word_of_int (sint a sdiv sint b)))"

section \<open>Strings\<close>

text \<open>
  A Go string is a sequence of bytes, here a \<open>char list\<close>.  \<open>decimal\<close>, \<open>fmt_d\<close> and
  \<open>fmt_03d\<close> are the verbs \<open>%d\<close> and \<open>%03d\<close> of \<open>fmt.Sprintf\<close>; \<open>%03d\<close> is only
  applied to the loop counter of \<open>splitFile\<close>, which starts at 0 and counts upwards and
  is a natural number here (a counter of 64 bits would wrap around after \<open>2^63\<close> parts).
\<close>

definition digit_char :: "nat \<Rightarrow> char" where
  "digit_char d = ''0123456789'' ! d"

function decimal :: "nat \<Rightarrow> string" where
  "decimal n = (if n < 10 then [digit_char n] else decimal (n div 10) @ [digit_char (n mod 10)])"
  by pat_completeness auto
termination
  by (relation "measure id") auto

declare decimal.simps [simp del]

definition fmt_d :: "int \<Rightarrow> string" where
  "fmt_d i = (if i < 0 then CHR ''-'' # decimal (nat (- i)) else decimal (nat i))"

definition fmt_03d :: "nat \<Rightarrow> string" where
  "fmt_03d n = replicate (3 - length (decimal n)) CHR ''0'' @ decimal n"

text \<open>\<open>strings.Contains\<close>: a search for the substring at every position.\<close>

fun Contains :: "string \<Rightarrow> string \<Rightarrow> bool" where
  "Contains [] substr = (substr = [])"
| "Contains (c # s) substr = (prefix substr (c # s) \<or> Contains s substr)"

text \<open>
  \<open>strings.TrimSpace\<close> removes the leading and the trailing white space of a string,
  white space being the runes of \<open>unicode.IsSpace\<close>: tab, line feed, vertical tab, form
  feed, carriage return, space, U+0085, U+00A0, U+1680, U+2000 to U+200A, U+2028,
  U+2029, U+202F, U+205F and U+3000, listed below in their UTF-8 encodings.  A byte
  sequence that is not one of these encodings decodes to a rune that is not white space
  and stops the trimming.
\<close>

definition space_encodings :: "nat list list" where
  "space_encodings =
     [[0x09], [0x0A], [0x0B], [0x0C], [0x0D], [0x20],
      [0xC2, 0x85], [0xC2, 0xA0], [0xE1, 0x9A, 0x80]]
     @ map (\<lambda>b. [0xE2, 0x80, b]) [0x80 ..< 0x8B]
     @ [[0xE2, 0x80, 0xA8], [0xE2, 0x80, 0xA9], [0xE2, 0x80, 0xAF],
        [0xE2, 0x81, 0x9F], [0xE3, 0x80, 0x80]]"

definition leading_space :: "string \<Rightarrow> nat" where
  "leading_space s =
     (case find (\<lambda>enc. prefix enc (map of_char s)) space_encodings of
        None \<Rightarrow> 0 | Some enc \<Rightarrow> length enc)"

definition trailing_space :: "string \<Rightarrow> nat" where
  "trailing_space s =
     (case find (\<lambda>enc. prefix (rev enc) (rev (map of_char s))) space_encodings of
        None \<Rightarrow> 0 | Some enc \<Rightarrow> length enc)"

lemma leading_space_Nil: "leading_space [] = 0"
  by code_simp

lemma trailing_space_Nil: "trailing_space [] = 0"
  by code_simp

function TrimLeftSpace :: "string \<Rightarrow> string" where
  "TrimLeftSpace s =
     (if leading_space s = 0 then s else TrimLeftSpace (drop (leading_space s) s))"
  by pat_completeness auto
termination
proof (relation "measure length")
  show "wf (measure length)" by simp
next
  fix s :: string
  assume "leading_space s \<noteq> 0"
  moreover from this have "s \<noteq> []" using leading_space_Nil by auto
  ultimately show "(drop (leading_space s) s, s) \<in> measure length" by simp
qed

function TrimRightSpace :: "string \<Rightarrow> string" where
  "TrimRightSpace s =
     (if trailing_space s = 0 then s
      else TrimRightSpace (take (length s - trailing_space s) s))"
  by pat_completeness auto
termination
proof (relation "measure length")
  show "wf (measure length)" by simp
next
  fix s :: string
  assume "trailing_space s \<noteq> 0"
  moreover from this have "s \<noteq> []" using trailing_space_Nil by auto
  ultimately show "(take (length s - trailing_space s) s, s) \<in> measure length" by simp
qed

declare TrimLeftSpace.simps [simp del] TrimRightSpace.simps [simp del]

definition TrimSpace :: "string \<Rightarrow> string" where
  "TrimSpace s = TrimRightSpace (TrimLeftSpace s)"

section \<open>The outside world\<close>

text \<open>
  The world is the local file system (the regular files with their sizes, as an
  association list) and the trace of everything the program has asked of the outside so
  far, oldest first, each request with its outcome.  What the collaborators answer is
  not decided by the program: the Telegram transport, the external commands (yt-dlp,
  ffmpeg), the faults of the \<open>test\<close> command and the clock are functions of the world,
  gathered in an environment.  An external command returns its error and the file
  system it leaves behind; \<open>test_fault\<close> is the error with which a run of
  \<open>test -f name\<close> fails when the command cannot be run at all (it is not found, the
  process cannot be started), and \<open>None\<close> when it runs.
\<close>

datatype chattable = NewMessage int64 string | NewAudio int64 string

datatype event =
    Send chattable "string option"
  | Stat string
  | Remove string
  | Exec string "string list" "string option"

record world =
  files :: "(string \<times> int64) list"
  trace :: "event list"

record env =
  transport :: "world \<Rightarrow> chattable \<Rightarrow> string option"
  command :: "world \<Rightarrow> string \<Rightarrow> string list \<Rightarrow> string option \<times> (string \<times> int64) list"
  test_fault :: "world \<Rightarrow> string \<Rightarrow> string option"
  clock :: "world \<Rightarrow> int64"

text \<open>
  \<open>bot.Send\<close>, \<open>os.Remove\<close> (its error is dropped by every caller; removing a file
  that is not there changes nothing), \<open>os.Stat\<close>, \<open>exec.Command(...).CombinedOutput()\<close>
  and \<open>exec.Command("test", "-f", name).Run()\<close>.  The last returns an error when the
  command cannot be run, whatever is on disk, and otherwise the error of exit status 1
  when \<open>name\<close> is not a regular file; it returns nil only for a file that exists.
\<close>

definition bot_Send :: "env \<Rightarrow> chattable \<Rightarrow> world \<Rightarrow> string option \<times> world" where
  "bot_Send e c w =
     (let err = transport e w c in (err, w\<lparr>trace := trace w @ [Send c err]\<rparr>))"

definition os_Remove :: "string \<Rightarrow> world \<Rightarrow> world" where
  "os_Remove name w =
     w\<lparr>files := filter (\<lambda>f. fst f \<noteq> name) (files w), trace := trace w @ [Remove name]\<rparr>"

definition os_Stat :: "string \<Rightarrow> world \<Rightarrow> (string + int64) \<times> world" where
  "os_Stat name w =
     (case map_of (files w) name of
        None \<Rightarrow> Inl (''stat '' @ name @ '': no such file or directory'')
      | Some sz \<Rightarrow> Inr sz,
      w\<lparr>trace := trace w @ [Stat name]\<rparr>)"

definition exec_Command :: "env \<Rightarrow> string \<Rightarrow> string list \<Rightarrow> world \<Rightarrow> string option \<times> world" where
  "exec_Command e name args w =
     (let (err, fs) = command e w name args
      in (err, \<lparr>files = fs, trace = trace w @ [Exec name args err]\<rparr>))"

definition file_exists :: "world \<Rightarrow> string \<Rightarrow> bool" where
  "file_exists w name \<longleftrightarrow> map_of (files w) name \<noteq> None"

definition test_error :: "env \<Rightarrow> world \<Rightarrow> string \<Rightarrow> string option" where
  "test_error e w name =
     (case test_fault e w name of
        Some c \<Rightarrow> Some c
      | None \<Rightarrow> if file_exists w name then None else Some ''exit status 1'')"

definition test_f :: "env \<Rightarrow> string \<Rightarrow> world \<Rightarrow> string option \<times> world" where
  "test_f e name w =
     (let err = test_error e w name
      in (err, w\<lparr>trace := trace w @ [Exec ''test'' [''-f'', name] err]\<rparr>))"

section \<open>The program\<close>

subsection \<open>The segment-duration planner\<close>

text \<open>
  \<^verbatim>\<open>
  func calculateSegmentTime(chunkSize int64, bitrateKbps int) int {
      chunkSizeKB := chunkSize / 1024
      bitrateKBps := int64(bitrateKbps / 8)
      segmentTime := chunkSizeKB / bitrateKBps
      return int(segmentTime)
  }
  \<close>
  The local variable \<open>bitrateKBps\<close> of this function hides the global variable of
  the same name, which is declared below.
\<close>

definition calculateSegmentTime :: "int64 \<Rightarrow> int64 \<Rightarrow> go_panic + int64" where
  "calculateSegmentTime chunkSize bitrateKbps =
     (case int64_div chunkSize 1024 of
        Inl p \<Rightarrow> Inl p
      | Inr chunkSizeKB \<Rightarrow>
          (case int64_div bitrateKbps 8 of
             Inl p \<Rightarrow> Inl p
           | Inr bitrateKBps \<Rightarrow> int64_div chunkSizeKB bitrateKBps))"

text \<open>
  The byte rate that the arithmetic of \<open>calculateSegmentTime\<close> works with: the bit
  rate in kilobits per second divided by 8 with Go's integer division (whole
  kilobytes per second), a kilobyte being the 1024 bytes of \<open>chunkSize / 1024\<close>.
\<close>

definition rateBytesPerSecond :: "int64 \<Rightarrow> int" where
  "rateBytesPerSecond bitrateKbps = 1024 * (sint bitrateKbps sdiv 8)"

subsection \<open>The shipped budget and bit rate\<close>

text \<open>
  \<^verbatim>\<open>
  var (
      maxFileSize int64 = 49 * 1024 * 1024 // 50 MB
      bitrateKBps       = 128
  )
  \<close>
\<close>

definition maxFileSize :: int64 where
  "maxFileSize = 49 * 1024 * 1024"

definition bitrateKBps :: int64 where
  "bitrateKBps = 128"

text \<open>
  \<^verbatim>\<open>
  func isValidYouTubeURL(url string) bool {
      return strings.Contains(url, "youtube.com/watch") || strings.Contains(url, "youtu.be/")
  }
  \<close>
\<close>

definition isValidYouTubeURL :: "string \<Rightarrow> bool" where
  "isValidYouTubeURL url \<longleftrightarrow> Contains url ''youtube.com/watch'' \<or> Contains url ''youtu.be/''"

subsection \<open>Sending one file\<close>

text \<open>
  \<^verbatim>\<open>
  func sendFile(bot *tgbotapi.BotAPI, filePath string, chatID int64) error {
      audioFile := tgbotapi.NewAudio(chatID, tgbotapi.FilePath(filePath))
      _, err := bot.Send(audioFile)
      os.Remove(filePath)
      return err
  }
  \<close>
\<close>

definition sendFile :: "env \<Rightarrow> string \<Rightarrow> int64 \<Rightarrow> world \<Rightarrow> string option \<times> world" where
  "sendFile e filePath chatID w =
     (let (err, w1) = bot_Send e (NewAudio chatID filePath) w;
          w2 = os_Remove filePath w1
      in (err, w2))"

subsection \<open>Part names\<close>

text \<open>\<open>fmt.Sprintf("%s.part%03d.mp3", filePath, i)\<close>\<close>

definition partName :: "string \<Rightarrow> nat \<Rightarrow> string" where
  "partName filePath i = filePath @ ''.part'' @ fmt_03d i @ ''.mp3''"

text \<open>
  Part names of different indices differ: the digits of a part name give its index
  back.  The probing loop of \<open>splitFile\<close> terminates for this reason.
\<close>

definition decimal_value :: "string \<Rightarrow> nat" where
  "decimal_value s = foldl (\<lambda>a c. 10 * a + (of_char c - 48)) 0 s"

lemma digit_char_value: "d < 10 \<Longrightarrow> of_char (digit_char d) = (48 + d :: nat)"
proof -
  assume "d < 10"
  then have "d \<in> {0, 1, 2, 3, 4, 5, 6, 7, 8, 9}" by auto
  then show ?thesis by (auto simp: digit_char_def)
qed

lemma decimal_value_snoc: "decimal_value (s @ [c]) = 10 * decimal_value s + (of_char c - 48)"
  by (simp add: decimal_value_def)

lemma decimal_value_decimal: "decimal_value (decimal n) = n"
proof (induction n rule: decimal.induct)
  case (1 n)
  show ?case
  proof (cases "n < 10")
    case True
    then show ?thesis
      by (simp add: decimal.simps [of n] decimal_value_def digit_char_value)
  next
    case False
    with 1 have "decimal_value (decimal (n div 10)) = n div 10" by simp
    with False show ?thesis
      by (simp add: decimal.simps [of n] decimal_value_snoc digit_char_value)
  qed
qed

lemma decimal_value_zeros: "decimal_value (replicate k CHR ''0'' @ s) = decimal_value s"
proof -
  have "foldl (\<lambda>a c. 10 * a + (of_char c - 48)) 0 (replicate k CHR ''0'') = (0 :: nat)"
    by (induction k) simp_all
  then show ?thesis by (simp add: decimal_value_def)
qed

lemma decimal_value_fmt_03d: "decimal_value (fmt_03d n) = n"
  by (simp add: fmt_03d_def decimal_value_zeros decimal_value_decimal)

lemma partName_inj: "partName filePath i = partName filePath j \<Longrightarrow> i = j"
proof -
  assume "partName filePath i = partName filePath j"
  then have "fmt_03d i = fmt_03d j" by (simp add: partName_def)
  then have "decimal_value (fmt_03d i) = decimal_value (fmt_03d j)" by simp
  then show "i = j" by (simp only: decimal_value_fmt_03d)
qed

lemma finite_part_indices: "finite {j. partName filePath j \<in> A}" if "finite A"
proof -
  have "inj (partName filePath)" by (rule injI) (rule partName_inj)
  then have "finite (partName filePath -` A)" using that by (rule finite_vimageI [rotated])
  then show ?thesis by (simp add: vimage_def)
qed

subsection \<open>Segmentation\<close>

text \<open>
  \<^verbatim>\<open>
  func splitFile(filePath string, chunkSize int64, bitrateKbps int) ([]string, error) {
      var partFiles []string
      segmentTime := calculateSegmentTime(chunkSize, bitrateKbps)
      outputPattern := fmt.Sprintf("%s.part%%03d.mp3", filePath)
      cmd := exec.Command("ffmpeg", "-i", filePath, "-f", "segment", "-segment_time",
          fmt.Sprintf("%d", segmentTime), "-c", "copy", outputPattern)
      output, err := cmd.CombinedOutput()
      if err != nil {
          return nil, err
      }
      i := 0
      for {
          partFilename := fmt.Sprintf("%s.part%03d.mp3", filePath, i)
          if err := exec.Command("test", "-f", partFilename).Run(); err != nil {
              break // No more parts exist
          }
          partFiles = append(partFiles, partFilename)
          i++
      }
      return partFiles, nil
  }
  \<close>
  The \<open>for\<close> loop is \<open>splitFile_probe\<close>: the counter, the parts found so far and the
  world are its state.  It ends at the first index whose probe returns an error, of any
  kind.  A probe returns nil only for a file that exists, the file system is finite and
  the part names are distinct, so there is such an index.
\<close>

function splitFile_probe ::
  "env \<Rightarrow> string \<Rightarrow> nat \<Rightarrow> string list \<Rightarrow> world \<Rightarrow> string list \<times> world" where
  "splitFile_probe e filePath i partFiles w =
     (let partFilename = partName filePath i;
          (err, w1) = test_f e partFilename w
      in if err \<noteq> None then (partFiles, w1)
         else splitFile_probe e filePath (i + 1) (partFiles @ [partFilename]) w1)"
  by pat_completeness auto
termination
proof (relation "measure (\<lambda>(e, filePath, i, partFiles, w).
          card {j. i \<le> j \<and> partName filePath j \<in> fst ` set (files w)})")
  show "wf (measure (\<lambda>(e, filePath, i, partFiles, w).
          card {j. i \<le> j \<and> partName filePath j \<in> fst ` set (files w)}))" by simp
next
  fix e :: env and filePath :: string and i :: nat and partFiles :: "string list"
    and w :: world and partFilename x err w1
  assume a: "partFilename = partName filePath i" "x = test_f e partFilename w"
    "(err, w1) = x" "\<not> err \<noteq> None"
  let ?S = "\<lambda>k. {j. k \<le> j \<and> partName filePath j \<in> fst ` set (files w)}"
  from a have ex: "map_of (files w) (partName filePath i) \<noteq> None" and fs: "files w1 = files w"
    by (auto simp: test_f_def test_error_def file_exists_def Let_def
        split: if_splits option.splits)
  from ex have mem: "partName filePath i \<in> fst ` set (files w)"
    by (simp add: map_of_eq_None_iff)
  have fin: "finite (?S i)"
    using finite_part_indices [of "fst ` set (files w)" filePath] by simp
  have "i \<in> ?S i" and "i \<notin> ?S (i + 1)" and "?S (i + 1) \<subseteq> ?S i"
    using mem by auto
  then have "?S (i + 1) \<subset> ?S i" by blast
  with fin have "card (?S (i + 1)) < card (?S i)" by (rule psubset_card_mono)
  with fs show "((e, filePath, i + 1, partFiles @ [partFilename], w1), e, filePath, i, partFiles, w)
         \<in> measure (\<lambda>(e, filePath, i, partFiles, w).
          card {j. i \<le> j \<and> partName filePath j \<in> fst ` set (files w)})"
    by simp
qed

declare splitFile_probe.simps [simp del]

definition ffmpeg_args :: "string \<Rightarrow> int64 \<Rightarrow> string list" where
  "ffmpeg_args filePath segmentTime =
     [''-i'', filePath, ''-f'', ''segment'', ''-segment_time'', fmt_d (sint segmentTime),
      ''-c'', ''copy'', filePath @ ''.part%03d.mp3'']"

definition splitFile ::
  "env \<Rightarrow> string \<Rightarrow> int64 \<Rightarrow> int64 \<Rightarrow> world \<Rightarrow> go_panic + ((string list \<times> string option) \<times> world)" where
  "splitFile e filePath chunkSize bitrateKbps w =
     (case calculateSegmentTime chunkSize bitrateKbps of
        Inl p \<Rightarrow> Inl p
      | Inr segmentTime \<Rightarrow>
          (let (err, w1) = exec_Command e ''ffmpeg'' (ffmpeg_args filePath segmentTime) w
           in case err of
                Some c \<Rightarrow> Inr (([], Some c), w1)
              | None \<Rightarrow>
                  (let (partFiles, w2) = splitFile_probe e filePath 0 [] w1
                   in Inr ((partFiles, None), w2))))"

subsection \<open>The size gate and delivery\<close>

text \<open>
  \<^verbatim>\<open>
  func checkAndSendFile(filePath string, chatID int64, bot *tgbotapi.BotAPI) error {
      fileInfo, err := os.Stat(filePath)
      if err != nil {
          return fmt.Errorf("could not check file size: %v", err)
      }
      if fileInfo.Size() > maxFileSize {
          partFiles, err := splitFile(filePath, maxFileSize, bitrateKBps)
          if err != nil {
              return fmt.Errorf("error splitting file: %v", err)
          }
          for _, part := range partFiles {
              err := sendFile(bot, part, chatID)
              if err != nil {
                  return fmt.Errorf("error sending file part: %v", err)
              }
          }
      } else {
          err := sendFile(bot, filePath, chatID)
          if err != nil {
              return fmt.Errorf("error sending file: %v", err)
          }
      }
      return nil
  }
  \<close>
  \<open>sendParts\<close> is the \<open>for ... range partFiles\<close> loop together with the \<open>return nil\<close>
  that follows it.
\<close>

fun sendParts :: "env \<Rightarrow> string list \<Rightarrow> int64 \<Rightarrow> world \<Rightarrow> string option \<times> world" where
  "sendParts e [] chatID w = (None, w)"
| "sendParts e (part # partFiles) chatID w =
     (case sendFile e part chatID w of
        (Some c, w1) \<Rightarrow> (Some (''error sending file part: '' @ c), w1)
      | (None, w1) \<Rightarrow> sendParts e partFiles chatID w1)"

definition checkAndSendFile ::
  "env \<Rightarrow> string \<Rightarrow> int64 \<Rightarrow> world \<Rightarrow> go_panic + (string option \<times> world)" where
  "checkAndSendFile e filePath chatID w =
     (case os_Stat filePath w of
        (Inl c, w1) \<Rightarrow> Inr (Some (''could not check file size: '' @ c), w1)
      | (Inr fileSize, w1) \<Rightarrow>
          if maxFileSize <s fileSize then
            (case splitFile e filePath maxFileSize bitrateKBps w1 of
               Inl p \<Rightarrow> Inl p
             | Inr ((partFiles, Some c), w2) \<Rightarrow> Inr (Some (''error splitting file: '' @ c), w2)
             | Inr ((partFiles, None), w2) \<Rightarrow> Inr (sendParts e partFiles chatID w2))
          else
            (case sendFile e filePath chatID w1 of
               (Some c, w2) \<Rightarrow> Inr (Some (''error sending file: '' @ c), w2)
             | (None, w2) \<Rightarrow> Inr (None, w2)))"

subsection \<open>Acquisition and the request handler\<close>

text \<open>
  \<^verbatim>\<open>
  func downloadMp3(url string, chatID int64) (string, string, error) {
      timestamp := time.Now().UnixNano()
      filenameTemplate := fmt.Sprintf("download_%d_%d.%%(ext)s", chatID, timestamp)
      cmd := exec.Command("yt-dlp", "-x", "--audio-format", "mp3",
          "--audio-quality", fmt.Sprintf("%dK", bitrateKBps), "-o", filenameTemplate, url)
      output, err := cmd.CombinedOutput()
      if err != nil {
          return "", "", err
      }
      mp3Filename := fmt.Sprintf("download_%d_%d.mp3", chatID, timestamp)
      m4aFilename := fmt.Sprintf("download_%d_%d.m4a", chatID, timestamp)
      return mp3Filename, m4aFilename, nil
  }
  \<close>
\<close>

definition download_stem :: "int64 \<Rightarrow> int64 \<Rightarrow> string" where
  "download_stem chatID timestamp =
     ''download_'' @ fmt_d (sint chatID) @ ''_'' @ fmt_d (sint timestamp)"

definition yt_dlp_args :: "string \<Rightarrow> string \<Rightarrow> string list" where
  "yt_dlp_args filenameTemplate url =
     [''-x'', ''--audio-format'', ''mp3'',
      ''--audio-quality'', fmt_d (sint bitrateKBps) @ ''K'',
      ''-o'', filenameTemplate, url]"

definition downloadMp3 ::
  "env \<Rightarrow> string \<Rightarrow> int64 \<Rightarrow> world \<Rightarrow> (string \<times> string \<times> string option) \<times> world" where
  "downloadMp3 e url chatID w =
     (let timestamp = clock e w;
          filenameTemplate = download_stem chatID timestamp @ ''.%(ext)s'';
          (err, w1) = exec_Command e ''yt-dlp'' (yt_dlp_args filenameTemplate url) w
      in case err of
           Some c \<Rightarrow> (([], [], Some c), w1)
         | None \<Rightarrow>
             ((download_stem chatID timestamp @ ''.mp3'',
               download_stem chatID timestamp @ ''.m4a'', None), w1))"

text \<open>
  \<^verbatim>\<open>
  func handleMessage(bot *tgbotapi.BotAPI, message *tgbotapi.Message) {
      url := strings.TrimSpace(message.Text)
      if !isValidYouTubeURL(url) {
          msg := tgbotapi.NewMessage(message.Chat.ID, "Please send a valid YouTube video URL.")
          _, err := bot.Send(msg)
          return
      }
      msg := tgbotapi.NewMessage(message.Chat.ID, "Starting to process your request...")
      _, err := bot.Send(msg)
      mp3FilePath, m4aFilePath, err := downloadMp3(url, message.Chat.ID)
      if err != nil {
          errorMsg := tgbotapi.NewMessage(message.Chat.ID, "Error downloading mp3: "+err.Error())
          _, err = bot.Send(errorMsg)
          return
      }
      err = checkAndSendFile(mp3FilePath, message.Chat.ID, bot)
      if err != nil {
          errorMsg := tgbotapi.NewMessage(message.Chat.ID, "Error sending mp3: "+err.Error())
          _, err = bot.Send(errorMsg)
      }
      os.Remove(m4aFilePath)
  }
  \<close>
  \<open>reply\<close> is a \<open>bot.Send\<close> of a text message whose error is only logged.
\<close>

record message =
  Text :: string
  ChatID :: int64

definition reply :: "env \<Rightarrow> int64 \<Rightarrow> string \<Rightarrow> world \<Rightarrow> world" where
  "reply e chatID text w = snd (bot_Send e (NewMessage chatID text) w)"

definition handleMessage :: "env \<Rightarrow> message \<Rightarrow> world \<Rightarrow> go_panic + world" where
  "handleMessage e message w =
     (let url = TrimSpace (Text message) in
      if \<not> isValidYouTubeURL url then
        Inr (reply e (ChatID message) ''Please send a valid YouTube video URL.'' w)
      else
        (let w1 = reply e (ChatID message) ''Starting to process your request...'' w;
             ((mp3FilePath, m4aFilePath, err), w2) = downloadMp3 e url (ChatID message) w1
         in case err of
              Some c \<Rightarrow> Inr (reply e (ChatID message) (''Error downloading mp3: '' @ c) w2)
            | None \<Rightarrow>
                (case checkAndSendFile e mp3FilePath (ChatID message) w2 of
                   Inl p \<Rightarrow> Inl p
                 | Inr (Some c, w3) \<Rightarrow>
                     Inr (os_Remove m4aFilePath
                            (reply e (ChatID message) (''Error sending mp3: '' @ c) w3))
                 | Inr (None, w3) \<Rightarrow> Inr (os_Remove m4aFilePath w3))))"

section \<open>Reading traces\<close>

text \<open>
  The events of a probing loop that finds the parts \<open>0..n-1\<close> and stops at part \<open>n\<close>
  with the error \<open>c\<close>; the events of sending a list of parts with success; and the
  audio files a trace sends, fails to send and removes, in the order of the trace.
\<close>

definition probe_events :: "string \<Rightarrow> nat \<Rightarrow> string \<Rightarrow> event list" where
  "probe_events filePath n c =
     map (\<lambda>j. Exec ''test'' [''-f'', partName filePath j] None) [0..<n]
     @ [Exec ''test'' [''-f'', partName filePath n] (Some c)]"

definition delivery_events :: "int64 \<Rightarrow> string list \<Rightarrow> event list" where
  "delivery_events chatID partFiles =
     concat (map (\<lambda>p. [Send (NewAudio chatID p) None, Remove p]) partFiles)"

fun audio_of :: "event \<Rightarrow> string list" where
  "audio_of (Send (NewAudio chatID p) r) = [p]"
| "audio_of ev = []"

definition audio_sent :: "event list \<Rightarrow> string list" where
  "audio_sent evs = concat (map audio_of evs)"

fun failed_audio_of :: "event \<Rightarrow> string list" where
  "failed_audio_of (Send (NewAudio chatID p) (Some c)) = [p]"
| "failed_audio_of ev = []"

definition failed_sends :: "event list \<Rightarrow> string list" where
  "failed_sends evs = concat (map failed_audio_of evs)"

fun removed_by :: "event \<Rightarrow> string list" where
  "removed_by (Remove p) = [p]"
| "removed_by ev = []"

definition removed :: "event list \<Rightarrow> string list" where
  "removed evs = concat (map removed_by evs)"

section \<open>Example collaborators\<close>

text \<open>
  An environment for the concrete runs below: the transport refuses the audio files
  listed in \<open>failing\<close> and accepts everything else, yt-dlp succeeds and leaves the files
  \<open>downloaded\<close>, every other command succeeds and leaves the files \<open>segments\<close>, the
  \<open>test\<close> command always runs, and the clock stands at 1000 nanoseconds.
\<close>

definition example_env ::
  "string list \<Rightarrow> (string \<times> int64) list \<Rightarrow> (string \<times> int64) list \<Rightarrow> env" where
  "example_env failing downloaded segments =
     \<lparr>transport = (\<lambda>w c. case c of
                     NewMessage chatID text \<Rightarrow> None
                   | NewAudio chatID p \<Rightarrow>
                       if p \<in> set failing then Some ''Request Entity Too Large'' else None),
      command = (\<lambda>w name args.
                   if name = ''yt-dlp'' then (None, files w @ downloaded)
                   else (None, files w @ segments)),
      test_fault = (\<lambda>w name. None),
      clock = (\<lambda>w. 1000)\<rparr>"

section \<open>Facts about 64-bit division\<close>

lemma sint_word_of_int_64:
  assumes "- 9223372036854775808 \<le> k" and "k < 9223372036854775808"
  shows "sint (word_of_int k :: int64) = k"
  using assms by (simp add: sint_sbintrunc' signed_take_bit_int_eq_self)

lemma sint_64_bounds:
  "- 9223372036854775808 \<le> sint (a :: int64) \<and> sint a < 9223372036854775808"
  using sint_ge [of a] sint_lt [of a] by simp

lemma div_le_dividend: "0 \<le> k \<Longrightarrow> 0 < l \<Longrightarrow> k div l \<le> (k :: int)"
  using zdiv_mono2 [of k 1 l] by simp

lemma sdiv_nonneg_pos: "0 \<le> k \<Longrightarrow> 0 < l \<Longrightarrow> k sdiv l = k div (l :: int)"
  by (simp add: signed_divide_int_def sgn_if)

lemma sdiv_nonneg_neg: "0 \<le> k \<Longrightarrow> l < 0 \<Longrightarrow> k sdiv l = - (k div - (l :: int))"
  by (simp add: signed_divide_int_def sgn_if)

lemma sdiv_neg_pos: "k < 0 \<Longrightarrow> 0 < l \<Longrightarrow> k sdiv l = - (- k div (l :: int))"
  by (simp add: signed_divide_int_def sgn_if)

lemma int64_div_nonneg_pos:
  assumes "0 \<le> sint a" and "0 < sint b"
  shows "\<exists>q. int64_div a b = Inr q \<and> sint q = sint a div sint b"
proof -
  from assms(2) have nz: "b \<noteq> 0" by auto
  have lo: "0 \<le> sint a div sint b"
    using assms by (simp add: pos_imp_zdiv_nonneg_iff)
  have "sint a div sint b \<le> sint a"
    using assms by (simp add: div_le_dividend)
  with sint_64_bounds [of a] have hi: "sint a div sint b < 9223372036854775808" by linarith
  from lo have lo': "- 9223372036854775808 \<le> sint a div sint b" by linarith
  have "sint (word_of_int (sint a div sint b) :: int64) = sint a div sint b"
    by (rule sint_word_of_int_64 [OF lo' hi])
  with nz assms show ?thesis
    by (simp add: int64_div_def sdiv_nonneg_pos)
qed

lemma int64_div_nonneg_neg:
  assumes "0 \<le> sint a" and "sint b < 0"
  shows "\<exists>q. int64_div a b = Inr q \<and> sint q = - (sint a div - sint b)"
proof -
  from assms(2) have nz: "b \<noteq> 0" by auto
  have nn: "0 \<le> sint a div - sint b"
    using assms by (simp add: pos_imp_zdiv_nonneg_iff)
  have "sint a div - sint b \<le> sint a"
    using assms by (simp add: div_le_dividend)
  with sint_64_bounds [of a] have lo: "- 9223372036854775808 \<le> - (sint a div - sint b)" by linarith
  from nn have hi: "- (sint a div - sint b) < 9223372036854775808" by linarith
  have "sint (word_of_int (- (sint a div - sint b)) :: int64) = - (sint a div - sint b)"
    by (rule sint_word_of_int_64 [OF lo hi])
  with nz assms show ?thesis
    by (simp add: int64_div_def sdiv_nonneg_neg)
qed

lemma int64_div_neg_pos:
  assumes "sint a < 0" and "0 < sint b"
  shows "\<exists>q. int64_div a b = Inr q \<and> sint q = - (- sint a div sint b)"
proof -
  from assms(2) have nz: "b \<noteq> 0" by auto
  have nn: "0 \<le> - sint a div sint b"
    using assms by (simp add: pos_imp_zdiv_nonneg_iff)
  have "- sint a div sint b \<le> - sint a"
    using assms by (simp add: div_le_dividend)
  with sint_64_bounds [of a] have lo: "- 9223372036854775808 \<le> - (- sint a div sint b)" by linarith
  from nn have hi: "- (- sint a div sint b) < 9223372036854775808" by linarith
  have "sint (word_of_int (- (- sint a div sint b)) :: int64) = - (- sint a div sint b)"
    by (rule sint_word_of_int_64 [OF lo hi])
  with nz assms show ?thesis
    by (simp add: int64_div_def sdiv_neg_pos)
qed

lemma sint_1024: "sint (1024 :: int64) = 1024"
  by simp

lemma sint_8: "sint (8 :: int64) = 8"
  by simp

text \<open>The first two divisions never panic; the rate in kilobytes is zero exactly on \<open>-7..7\<close>.\<close>

lemma bitrate_div_8_zero_iff:
  "(word_of_int (sint (b :: int64) sdiv 8) :: int64) = 0 \<longleftrightarrow> - 8 < sint b \<and> sint b < 8"
proof (cases "0 \<le> sint b")
  case True
  have q: "sint b sdiv 8 = sint b div 8"
    using True by (simp add: sdiv_nonneg_pos)
  have lo: "- 9223372036854775808 \<le> sint b div 8" using True by linarith
  have hi: "sint b div 8 < 9223372036854775808" using sint_64_bounds [of b] by linarith
  have "(word_of_int (sint b div 8) :: int64) = 0 \<longleftrightarrow> sint b div 8 = 0"
    using sint_word_of_int_64 [OF lo hi] by (metis sint_0 word_of_int_0)
  with True q show ?thesis by auto
next
  case False
  then have neg: "sint b < 0" by simp
  have q: "sint b sdiv 8 = - (- sint b div 8)"
    using neg by (simp add: sdiv_neg_pos)
  have lo: "- 9223372036854775808 \<le> - (- sint b div 8)" using sint_64_bounds [of b] neg by linarith
  have hi: "- (- sint b div 8) < 9223372036854775808" using neg by linarith
  have "(word_of_int (- (- sint b div 8)) :: int64) = 0 \<longleftrightarrow> - (- sint b div 8) = 0"
    using sint_word_of_int_64 [OF lo hi] by (metis sint_0 word_of_int_0)
  with neg q show ?thesis by auto
qed

lemma calculateSegmentTime_panic_iff:
  "calculateSegmentTime chunkSize bitrateKbps = Inl DivideByZero
     \<longleftrightarrow> - 8 < sint bitrateKbps \<and> sint bitrateKbps < 8"
proof -
  have "calculateSegmentTime chunkSize bitrateKbps = Inl DivideByZero
          \<longleftrightarrow> (word_of_int (sint bitrateKbps sdiv 8) :: int64) = 0"
    by (simp add: calculateSegmentTime_def int64_div_def)
  then show ?thesis by (simp only: bitrate_div_8_zero_iff)
qed

text \<open>
  For a budget that is not negative and a rate of at least 8 the result is the quotient
  of the two truncated quotients.
\<close>

lemma calculateSegmentTime_value:
  assumes "0 \<le> sint chunkSize" and "8 \<le> sint bitrateKbps"
  shows "\<exists>v. calculateSegmentTime chunkSize bitrateKbps = Inr v
           \<and> sint v = (sint chunkSize div 1024) div (sint bitrateKbps div 8)"
proof -
  obtain kb where kb: "int64_div chunkSize 1024 = Inr kb" "sint kb = sint chunkSize div 1024"
    using int64_div_nonneg_pos [of chunkSize 1024] assms(1) by (auto simp: sint_1024)
  obtain r where r: "int64_div bitrateKbps 8 = Inr r" "sint r = sint bitrateKbps div 8"
    using int64_div_nonneg_pos [of bitrateKbps 8] assms(2) by (auto simp: sint_8)
  have kb0: "0 \<le> sint kb" using kb(2) assms(1) by simp
  have r0: "0 < sint r" using r(2) assms(2) by linarith
  obtain v where v: "int64_div kb r = Inr v" "sint v = sint kb div sint r"
    using int64_div_nonneg_pos [OF kb0 r0] by auto
  show ?thesis
    using kb r v by (simp add: calculateSegmentTime_def)
qed

lemma calculateSegmentTime_value_neg_rate:
  assumes "0 \<le> sint chunkSize" and "sint bitrateKbps \<le> - 8"
  shows "\<exists>v. calculateSegmentTime chunkSize bitrateKbps = Inr v
           \<and> sint v = - ((sint chunkSize div 1024) div (- sint bitrateKbps div 8))"
proof -
  obtain kb where kb: "int64_div chunkSize 1024 = Inr kb" "sint kb = sint chunkSize div 1024"
    using int64_div_nonneg_pos [of chunkSize 1024] assms(1) by (auto simp: sint_1024)
  have bneg: "sint bitrateKbps < 0" using assms(2) by simp
  obtain r where r: "int64_div bitrateKbps 8 = Inr r" "sint r = - (- sint bitrateKbps div 8)"
    using int64_div_neg_pos [of bitrateKbps 8] bneg by (auto simp: sint_8)
  have kb0: "0 \<le> sint kb" using kb(2) assms(1) by simp
  have r0: "sint r < 0" using r(2) assms(2) by linarith
  obtain v where v: "int64_div kb r = Inr v" "sint v = - (sint kb div - sint r)"
    using int64_div_nonneg_neg [OF kb0 r0] by auto
  show ?thesis
    using kb r v by (simp add: calculateSegmentTime_def)
qed

lemma floor_quotient_maximal:
  fixes c r :: int
  assumes "0 \<le> c" and "0 < r"
  shows "(c div 1024) div r * (1024 * r) \<le> c \<and> c < ((c div 1024) div r + 1) * (1024 * r)"
proof -
  have "c div 1024 div r = c div (1024 * r)"
    using assms by (simp add: zdiv_zmult2_eq)
  moreover have "0 < 1024 * r" using assms by simp
  moreover have "c div (1024 * r) * (1024 * r) \<le> c"
    using \<open>0 < 1024 * r\<close> by (metis div_mult_mod_eq pos_mod_sign le_add_same_cancel1)
  moreover have "c < (c div (1024 * r) + 1) * (1024 * r)"
  proof -
    have "c = c div (1024 * r) * (1024 * r) + c mod (1024 * r)"
      by (rule div_mult_mod_eq [symmetric])
    moreover have "c mod (1024 * r) < 1024 * r"
      using \<open>0 < 1024 * r\<close> by (rule pos_mod_bound)
    ultimately show ?thesis by (simp add: algebra_simps)
  qed
  ultimately show ?thesis by simp
qed

lemma segment_time_shipped: "calculateSegmentTime maxFileSize bitrateKBps = Inr 3136"
  by (simp add: calculateSegmentTime_def int64_div_def signed_divide_int_def
      maxFileSize_def bitrateKBps_def)

section \<open>Facts about the primitives and the two loops\<close>

lemma sendFile_eq:
  "sendFile e p c w =
     (transport e w (NewAudio c p),
      w\<lparr>files := filter (\<lambda>f. fst f \<noteq> p) (files w),
        trace := trace w @ [Send (NewAudio c p) (transport e w (NewAudio c p)), Remove p]\<rparr>)"
  by (simp add: sendFile_def bot_Send_def os_Remove_def Let_def)

lemma map_of_filter_removed: "map_of (filter (\<lambda>f. fst f \<noteq> p) fs) p = None"
  by (induction fs) auto

lemma map_of_filter_other: "q \<noteq> p \<Longrightarrow> map_of (filter (\<lambda>f. fst f \<noteq> p) fs) q = map_of fs q"
  by (induction fs) auto

lemma map_of_filter_keeps:
  "P q \<Longrightarrow> map_of (filter (\<lambda>f. P (fst f)) fs) q = map_of fs q"
  by (induction fs) auto

lemma reply_eq:
  "reply e c t w = w\<lparr>trace := trace w @ [Send (NewMessage c t) (transport e w (NewMessage c t))]\<rparr>"
  by (simp add: reply_def bot_Send_def Let_def)

lemma world_eqI: "files a = files b \<Longrightarrow> trace a = trace b \<Longrightarrow> a = (b :: world)"
  by simp

text \<open>
  The delivery loop either sends every part, or stops at the first part \<open>k\<close> whose send
  fails, having removed the parts \<open>0..k\<close>.
\<close>

lemma sendParts_shape:
  "sendParts e ps c w = (r, w') \<Longrightarrow>
     (r = None
        \<and> trace w' = trace w @ concat (map (\<lambda>p. [Send (NewAudio c p) None, Remove p]) ps)
        \<and> files w' = filter (\<lambda>f. fst f \<notin> set ps) (files w))
   \<or> (\<exists>k cause. k < length ps
        \<and> r = Some (''error sending file part: '' @ cause)
        \<and> trace w' = trace w
             @ concat (map (\<lambda>p. [Send (NewAudio c p) None, Remove p]) (take k ps))
             @ [Send (NewAudio c (ps ! k)) (Some cause), Remove (ps ! k)]
        \<and> files w' = filter (\<lambda>f. fst f \<notin> set (take (Suc k) ps)) (files w))"
proof (induction ps arbitrary: w)
  case Nil
  then show ?case by auto
next
  case (Cons p ps)
  let ?w1 = "snd (sendFile e p c w)"
  show ?case
  proof (cases "transport e w (NewAudio c p)")
    case (Some cause)
    with Cons.prems have "r = Some (''error sending file part: '' @ cause)"
      and "w' = ?w1"
      by (auto simp: sendFile_eq)
    then have "0 < length (p # ps) \<and> r = Some (''error sending file part: '' @ cause)
        \<and> trace w' = trace w
             @ concat (map (\<lambda>p. [Send (NewAudio c p) None, Remove p]) (take 0 (p # ps)))
             @ [Send (NewAudio c ((p # ps) ! 0)) (Some cause), Remove ((p # ps) ! 0)]
        \<and> files w' = filter (\<lambda>f. fst f \<notin> set (take (Suc 0) (p # ps))) (files w)"
      using Some by (simp add: sendFile_eq)
    then show ?thesis by blast
  next
    case None
    with Cons.prems have rec: "sendParts e ps c ?w1 = (r, w')"
      by (simp add: sendFile_eq)
    have t1: "trace ?w1 = trace w @ [Send (NewAudio c p) None, Remove p]"
      and f1: "files ?w1 = filter (\<lambda>f. fst f \<noteq> p) (files w)"
      using None by (simp_all add: sendFile_eq)
    from Cons.IH [OF rec] show ?thesis
    proof
      assume "r = None
        \<and> trace w' = trace ?w1 @ concat (map (\<lambda>p. [Send (NewAudio c p) None, Remove p]) ps)
        \<and> files w' = filter (\<lambda>f. fst f \<notin> set ps) (files ?w1)"
      then show ?thesis by (auto simp: t1 f1 intro: filter_cong)
    next
      assume "\<exists>k cause. k < length ps
        \<and> r = Some (''error sending file part: '' @ cause)
        \<and> trace w' = trace ?w1
             @ concat (map (\<lambda>p. [Send (NewAudio c p) None, Remove p]) (take k ps))
             @ [Send (NewAudio c (ps ! k)) (Some cause), Remove (ps ! k)]
        \<and> files w' = filter (\<lambda>f. fst f \<notin> set (take (Suc k) ps)) (files ?w1)"
      then obtain k cause where k: "k < length ps"
        "r = Some (''error sending file part: '' @ cause)"
        "trace w' = trace ?w1
             @ concat (map (\<lambda>p. [Send (NewAudio c p) None, Remove p]) (take k ps))
             @ [Send (NewAudio c (ps ! k)) (Some cause), Remove (ps ! k)]"
        "files w' = filter (\<lambda>f. fst f \<notin> set (take (Suc k) ps)) (files ?w1)"
        by blast
      have "Suc k < length (p # ps) \<and> r = Some (''error sending file part: '' @ cause)
        \<and> trace w' = trace w
             @ concat (map (\<lambda>p. [Send (NewAudio c p) None, Remove p]) (take (Suc k) (p # ps)))
             @ [Send (NewAudio c ((p # ps) ! Suc k)) (Some cause), Remove ((p # ps) ! Suc k)]
        \<and> files w' = filter (\<lambda>f. fst f \<notin> set (take (Suc (Suc k)) (p # ps))) (files w)"
        using k by (auto simp: t1 f1 intro: filter_cong)
      then show ?thesis by blast
    qed
  qed
qed

text \<open>
  The probing loop, started at index \<open>i\<close>: it always stops, at some index \<open>i + n\<close>
  below which every part exists; when the \<open>test\<close> command runs, that index is the
  first missing part.
\<close>

lemma test_f_eq:
  "test_f e name w =
     (test_error e w name,
      w\<lparr>trace := trace w @ [Exec ''test'' [''-f'', name] (test_error e w name)]\<rparr>)"
  by (simp add: test_f_def Let_def)

lemma test_error_None: "test_error e w name = None \<Longrightarrow> file_exists w name"
  by (simp add: test_error_def split: option.splits if_splits)

lemma test_error_missing: "\<not> file_exists w name \<Longrightarrow> test_error e w name \<noteq> None"
  using test_error_None by blast


lemma splitFile_probe_stops:
  "\<exists>n c. (\<forall>j<n. file_exists w (partName p (i + j)))
       \<and> splitFile_probe e p i acc w =
           (acc @ map (partName p) [i..<i + n],
            w\<lparr>trace := trace w
                 @ map (\<lambda>j. Exec ''test'' [''-f'', partName p j] None) [i..<i + n]
                 @ [Exec ''test'' [''-f'', partName p (i + n)] (Some c)]\<rparr>)"
proof (induction e p i acc w rule: splitFile_probe.induct)
  case (1 e p i acc w)
  show ?case
  proof (cases "test_error e w (partName p i)")
    case (Some c)
    then have "splitFile_probe e p i acc w =
        (acc, w\<lparr>trace := trace w @ [Exec ''test'' [''-f'', partName p i] (Some c)]\<rparr>)"
      by (simp add: splitFile_probe.simps [of e p i acc w] test_f_eq Let_def)
    then have "(\<forall>j<0. file_exists w (partName p (i + j)))
       \<and> splitFile_probe e p i acc w =
           (acc @ map (partName p) [i..<i + 0],
            w\<lparr>trace := trace w
                 @ map (\<lambda>j. Exec ''test'' [''-f'', partName p j] None) [i..<i + 0]
                 @ [Exec ''test'' [''-f'', partName p (i + 0)] (Some c)]\<rparr>)"
      by simp
    then show ?thesis by blast
  next
    case None
    let ?w1 = "w\<lparr>trace := trace w @ [Exec ''test'' [''-f'', partName p i] None]\<rparr>"
    have here: "file_exists w (partName p i)" using None by (rule test_error_None)
    have step: "splitFile_probe e p i acc w
        = splitFile_probe e p (i + 1) (acc @ [partName p i]) ?w1"
      using None by (simp add: splitFile_probe.simps [of e p i acc w] test_f_eq Let_def)
    have "\<exists>n c. (\<forall>j<n. file_exists ?w1 (partName p (i + 1 + j)))
       \<and> splitFile_probe e p (i + 1) (acc @ [partName p i]) ?w1 =
           ((acc @ [partName p i]) @ map (partName p) [i + 1..<i + 1 + n],
            ?w1\<lparr>trace := trace ?w1
                 @ map (\<lambda>j. Exec ''test'' [''-f'', partName p j] None) [i + 1..<i + 1 + n]
                 @ [Exec ''test'' [''-f'', partName p (i + 1 + n)] (Some c)]\<rparr>)"
      using None by (intro "1.IH" [of "partName p i" "test_f e (partName p i) w" None ?w1])
        (simp_all add: test_f_eq)
    then obtain n c where n: "\<forall>j<n. file_exists ?w1 (partName p (i + 1 + j))"
      and r: "splitFile_probe e p (i + 1) (acc @ [partName p i]) ?w1 =
           ((acc @ [partName p i]) @ map (partName p) [i + 1..<i + 1 + n],
            ?w1\<lparr>trace := trace ?w1
                 @ map (\<lambda>j. Exec ''test'' [''-f'', partName p j] None) [i + 1..<i + 1 + n]
                 @ [Exec ''test'' [''-f'', partName p (i + 1 + n)] (Some c)]\<rparr>)"
      by blast
    have all: "\<forall>j<Suc n. file_exists w (partName p (i + j))"
    proof (intro allI impI)
      fix j assume "j < Suc n"
      show "file_exists w (partName p (i + j))"
      proof (cases j)
        case 0
        with here show ?thesis by simp
      next
        case (Suc j')
        with \<open>j < Suc n\<close> n have "file_exists ?w1 (partName p (i + 1 + j'))" by simp
        with Suc show ?thesis by (simp add: file_exists_def)
      qed
    qed
    have up: "[i..<i + Suc n] = i # [i + 1..<i + 1 + n]"
      by (simp add: upt_rec)
    have "splitFile_probe e p i acc w =
           (acc @ map (partName p) [i..<i + Suc n],
            w\<lparr>trace := trace w
                 @ map (\<lambda>j. Exec ''test'' [''-f'', partName p j] None) [i..<i + Suc n]
                 @ [Exec ''test'' [''-f'', partName p (i + Suc n)] (Some c)]\<rparr>)"
      unfolding step r up by simp
    with all show ?thesis by blast
  qed
qed


lemma audio_sent_append: "audio_sent (xs @ ys) = audio_sent xs @ audio_sent ys"
  by (simp add: audio_sent_def)

lemma audio_sent_delivery: "audio_sent (delivery_events c ps) = ps"
  by (induction ps) (simp_all add: audio_sent_def delivery_events_def)

lemma failed_sends_append: "failed_sends (xs @ ys) = failed_sends xs @ failed_sends ys"
  by (simp add: failed_sends_def)

lemma failed_sends_delivery: "failed_sends (delivery_events c ps) = []"
  by (induction ps) (simp_all add: failed_sends_def delivery_events_def)

lemma removed_append: "removed (xs @ ys) = removed xs @ removed ys"
  by (simp add: removed_def)

lemma removed_delivery: "removed (delivery_events c ps) = ps"
  by (induction ps) (simp_all add: removed_def delivery_events_def)

lemma removed_probe: "removed (probe_events p n c) = []"
  by (simp add: removed_def probe_events_def)

lemma failed_sends_probe: "failed_sends (probe_events p n c) = []"
  by (simp add: failed_sends_def probe_events_def)

lemma ffmpeg_not_probe: "Exec ''ffmpeg'' a r \<notin> set (probe_events p n c)"
  by (auto simp: probe_events_def)

lemma ffmpeg_not_delivery: "Exec ''ffmpeg'' a r \<notin> set (delivery_events c ps)"
  by (auto simp: delivery_events_def)

lemma Remove_in_delivery: "Remove q \<in> set (delivery_events c ps) \<longleftrightarrow> q \<in> set ps"
  by (auto simp: delivery_events_def)

lemma Remove_not_probe: "Remove q \<notin> set (probe_events p n c)"
  by (auto simp: probe_events_def)

lemma partName_neq_source: "partName p j \<noteq> p"
  by (simp add: partName_def)

lemma source_not_part: "p \<notin> set (map (partName p) [0..<n])"
  by (auto simp: partName_def)

lemma ffmpeg_args_source: "ffmpeg_args p t = ffmpeg_args q u \<Longrightarrow> p = q"
  by (simp add: ffmpeg_args_def)

lemma Contains_iff_sublist: "Contains s substr \<longleftrightarrow> sublist substr s"
  by (induction s) (simp_all add: sublist_Cons_right)

section \<open>The runs of the size gate and of the request handler\<close>

text \<open>
  \<open>checkAndSendFile\<close> never panics (the shipped budget and bit rate give segments of
  3136 seconds), and every run of it has one of five shapes.
\<close>

lemma checkAndSendFile_cases
  [case_names stat_failed direct split_failed parts_sent part_failed]:
  obtains
    (stat_failed) "map_of (files w) p = None"
      "checkAndSendFile e p c w
         = Inr (Some (''could not check file size: '' @ ''stat '' @ p @ '': no such file or directory''),
                w\<lparr>trace := trace w @ [Stat p]\<rparr>)"
  | (direct) sz s where "map_of (files w) p = Some sz" "\<not> maxFileSize <s sz"
      "checkAndSendFile e p c w
         = Inr (map_option ((@) ''error sending file: '') s,
                \<lparr>files = filter (\<lambda>f. fst f \<noteq> p) (files w),
                 trace = trace w @ [Stat p, Send (NewAudio c p) s, Remove p]\<rparr>)"
  | (split_failed) sz cause fs where "map_of (files w) p = Some sz" "maxFileSize <s sz"
      "command e (w\<lparr>trace := trace w @ [Stat p]\<rparr>) ''ffmpeg'' (ffmpeg_args p 3136) = (Some cause, fs)"
      "checkAndSendFile e p c w
         = Inr (Some (''error splitting file: '' @ cause),
                \<lparr>files = fs,
                 trace = trace w @ [Stat p, Exec ''ffmpeg'' (ffmpeg_args p 3136) (Some cause)]\<rparr>)"
  | (parts_sent) sz fs n c0 where "map_of (files w) p = Some sz" "maxFileSize <s sz"
      "command e (w\<lparr>trace := trace w @ [Stat p]\<rparr>) ''ffmpeg'' (ffmpeg_args p 3136) = (None, fs)"
      "checkAndSendFile e p c w
         = Inr (None,
                \<lparr>files = filter (\<lambda>f. fst f \<notin> set (map (partName p) [0..<n])) fs,
                 trace = trace w @ [Stat p, Exec ''ffmpeg'' (ffmpeg_args p 3136) None]
                           @ probe_events p n c0
                           @ delivery_events c (map (partName p) [0..<n])\<rparr>)"
  | (part_failed) sz fs n c0 k cause where "map_of (files w) p = Some sz" "maxFileSize <s sz"
      "command e (w\<lparr>trace := trace w @ [Stat p]\<rparr>) ''ffmpeg'' (ffmpeg_args p 3136) = (None, fs)"
      "k < n"
      "checkAndSendFile e p c w
         = Inr (Some (''error sending file part: '' @ cause),
                \<lparr>files = filter (\<lambda>f. fst f \<notin> set (take (Suc k) (map (partName p) [0..<n]))) fs,
                 trace = trace w @ [Stat p, Exec ''ffmpeg'' (ffmpeg_args p 3136) None]
                           @ probe_events p n c0
                           @ delivery_events c (take k (map (partName p) [0..<n]))
                           @ [Send (NewAudio c (partName p k)) (Some cause),
                              Remove (partName p k)]\<rparr>)"
proof (cases "map_of (files w) p")
  case None
  then have "checkAndSendFile e p c w
         = Inr (Some (''could not check file size: '' @ ''stat '' @ p @ '': no such file or directory''),
                w\<lparr>trace := trace w @ [Stat p]\<rparr>)"
    by (simp add: checkAndSendFile_def os_Stat_def)
  with None show ?thesis by (rule stat_failed)
next
  case (Some sz)
  let ?w1 = "w\<lparr>trace := trace w @ [Stat p]\<rparr>"
  show ?thesis
  proof (cases "maxFileSize <s sz")
    case False
    let ?s = "transport e ?w1 (NewAudio c p)"
    have "checkAndSendFile e p c w
         = Inr (map_option ((@) ''error sending file: '') ?s,
                \<lparr>files = filter (\<lambda>f. fst f \<noteq> p) (files w),
                 trace = trace w @ [Stat p, Send (NewAudio c p) ?s, Remove p]\<rparr>)"
      using Some False
      by (cases ?s) (simp_all add: checkAndSendFile_def os_Stat_def sendFile_eq)
    with Some False show ?thesis by (rule direct)
  next
    case True
    obtain err fs where cmd: "command e ?w1 ''ffmpeg'' (ffmpeg_args p 3136) = (err, fs)"
      by (cases "command e ?w1 ''ffmpeg'' (ffmpeg_args p 3136)")
    show ?thesis
    proof (cases err)
      case (Some cause)
      have "checkAndSendFile e p c w
         = Inr (Some (''error splitting file: '' @ cause),
                \<lparr>files = fs,
                 trace = trace w @ [Stat p, Exec ''ffmpeg'' (ffmpeg_args p 3136) (Some cause)]\<rparr>)"
        using \<open>map_of (files w) p = Some sz\<close> True cmd Some
        by (simp add: checkAndSendFile_def os_Stat_def splitFile_def segment_time_shipped
            exec_Command_def)
      with \<open>map_of (files w) p = Some sz\<close> True cmd [unfolded Some] show ?thesis
        by (rule split_failed)
    next
      case None
      let ?w2 = "\<lparr>files = fs, trace = trace w @ [Stat p, Exec ''ffmpeg'' (ffmpeg_args p 3136) None]\<rparr>"
      obtain n c0 where stops: "splitFile_probe e p 0 [] ?w2 =
           ([] @ map (partName p) [0..<0 + n],
            ?w2\<lparr>trace := trace ?w2
                 @ map (\<lambda>j. Exec ''test'' [''-f'', partName p j] None) [0..<0 + n]
                 @ [Exec ''test'' [''-f'', partName p (0 + n)] (Some c0)]\<rparr>)"
        using splitFile_probe_stops [of ?w2 p 0 e "[]"] by blast
      let ?ps = "map (partName p) [0..<n]"
      let ?w3 = "?w2\<lparr>trace := trace ?w2 @ probe_events p n c0\<rparr>"
      from stops have probe: "splitFile_probe e p 0 [] ?w2 = (?ps, ?w3)"
        by (simp add: probe_events_def)
      obtain r w4 where sp: "sendParts e ?ps c ?w3 = (r, w4)"
        by (cases "sendParts e ?ps c ?w3")
      have res: "checkAndSendFile e p c w = Inr (r, w4)"
        using \<open>map_of (files w) p = Some sz\<close> True cmd None probe sp
        by (simp add: checkAndSendFile_def os_Stat_def splitFile_def segment_time_shipped
            exec_Command_def)
      from sendParts_shape [OF sp] show ?thesis
      proof
        assume a: "r = None
          \<and> trace w4 = trace ?w3 @ concat (map (\<lambda>p. [Send (NewAudio c p) None, Remove p]) ?ps)
          \<and> files w4 = filter (\<lambda>f. fst f \<notin> set ?ps) (files ?w3)"
        then have "w4 = \<lparr>files = filter (\<lambda>f. fst f \<notin> set ?ps) fs,
                 trace = trace w @ [Stat p, Exec ''ffmpeg'' (ffmpeg_args p 3136) None]
                           @ probe_events p n c0 @ delivery_events c ?ps\<rparr>"
          by (intro world_eqI) (simp_all add: delivery_events_def)
        with res a have "checkAndSendFile e p c w
         = Inr (None,
                \<lparr>files = filter (\<lambda>f. fst f \<notin> set ?ps) fs,
                 trace = trace w @ [Stat p, Exec ''ffmpeg'' (ffmpeg_args p 3136) None]
                           @ probe_events p n c0 @ delivery_events c ?ps\<rparr>)"
          by simp
        with \<open>map_of (files w) p = Some sz\<close> True cmd [unfolded None] show ?thesis
          by (rule parts_sent)
      next
        assume "\<exists>k cause. k < length ?ps
          \<and> r = Some (''error sending file part: '' @ cause)
          \<and> trace w4 = trace ?w3
               @ concat (map (\<lambda>p. [Send (NewAudio c p) None, Remove p]) (take k ?ps))
               @ [Send (NewAudio c (?ps ! k)) (Some cause), Remove (?ps ! k)]
          \<and> files w4 = filter (\<lambda>f. fst f \<notin> set (take (Suc k) ?ps)) (files ?w3)"
        then obtain k cause where k: "k < n" "r = Some (''error sending file part: '' @ cause)"
          "trace w4 = trace ?w3
               @ concat (map (\<lambda>p. [Send (NewAudio c p) None, Remove p]) (take k ?ps))
               @ [Send (NewAudio c (?ps ! k)) (Some cause), Remove (?ps ! k)]"
          "files w4 = filter (\<lambda>f. fst f \<notin> set (take (Suc k) ?ps)) (files ?w3)"
          by auto
        have nth: "?ps ! k = partName p k" using k(1) by simp
        have "w4 = \<lparr>files = filter (\<lambda>f. fst f \<notin> set (take (Suc k) ?ps)) fs,
                 trace = trace w @ [Stat p, Exec ''ffmpeg'' (ffmpeg_args p 3136) None]
                           @ probe_events p n c0
                           @ delivery_events c (take k ?ps)
                           @ [Send (NewAudio c (partName p k)) (Some cause),
                              Remove (partName p k)]\<rparr>"
          using k(3,4) unfolding nth by (intro world_eqI) (simp_all add: delivery_events_def)
        with res k(2) have "checkAndSendFile e p c w
         = Inr (Some (''error sending file part: '' @ cause),
                \<lparr>files = filter (\<lambda>f. fst f \<notin> set (take (Suc k) ?ps)) fs,
                 trace = trace w @ [Stat p, Exec ''ffmpeg'' (ffmpeg_args p 3136) None]
                           @ probe_events p n c0
                           @ delivery_events c (take k ?ps)
                           @ [Send (NewAudio c (partName p k)) (Some cause),
                              Remove (partName p k)]\<rparr>)"
          by simp
        with \<open>map_of (files w) p = Some sz\<close> True cmd [unfolded None] k(1) show ?thesis
          by (rule part_failed)
      qed
    qed
  qed
qed

text \<open>The request handler once the URL has passed validation.\<close>

lemma handleMessage_accepted:
  assumes valid: "isValidYouTubeURL (TrimSpace (Text m))"
    and w1: "w1 = w\<lparr>trace := trace w @ [Send (NewMessage (ChatID m) ''Starting to process your request...'') r0]\<rparr>"
    and r0: "r0 = transport e w (NewMessage (ChatID m) ''Starting to process your request...'')"
    and stem: "stem = download_stem (ChatID m) (clock e w1)"
    and cmd: "command e w1 ''yt-dlp'' (yt_dlp_args (stem @ ''.%(ext)s'') (TrimSpace (Text m))) = (err, fs)"
    and w2: "w2 = \<lparr>files = fs, trace = trace w1 @ [Exec ''yt-dlp'' (yt_dlp_args (stem @ ''.%(ext)s'') (TrimSpace (Text m))) err]\<rparr>"
  shows "handleMessage e m w =
           (case err of
              Some c \<Rightarrow> Inr (reply e (ChatID m) (''Error downloading mp3: '' @ c) w2)
            | None \<Rightarrow>
                (case checkAndSendFile e (stem @ ''.mp3'') (ChatID m) w2 of
                   Inl p \<Rightarrow> Inl p
                 | Inr (Some c, w3) \<Rightarrow>
                     Inr (os_Remove (stem @ ''.m4a'')
                            (reply e (ChatID m) (''Error sending mp3: '' @ c) w3))
                 | Inr (None, w3) \<Rightarrow> Inr (os_Remove (stem @ ''.m4a'') w3)))"
proof -
  have "reply e (ChatID m) ''Starting to process your request...'' w = w1"
    by (simp add: reply_eq w1 r0)
  moreover have "downloadMp3 e (TrimSpace (Text m)) (ChatID m) w1
      = (case err of Some c \<Rightarrow> (([], [], Some c), w2)
         | None \<Rightarrow> ((stem @ ''.mp3'', stem @ ''.m4a'', None), w2))"
    using cmd by (simp add: downloadMp3_def exec_Command_def Let_def stem w2 split: option.split)
  ultimately show ?thesis
    using valid by (simp add: handleMessage_def Let_def split: option.split)
qed

section \<open>The claims\<close>

text \<open>
  C1 (as amended).  For every budget \<open>chunkSize > 0\<close> and every bit rate of at least 8,
  \<open>calculateSegmentTime\<close> returns a duration \<open>v\<close> that is maximal for the budget at
  the byte rate the function works with: \<open>v * rate \<le> chunkSize < (v + 1) * rate\<close>,
  where \<open>rate = 1024 * (bitrateKbps / 8)\<close> bytes per second.
\<close>

theorem calculateSegmentTime_maximal:
  assumes "0 < sint chunkSize" and "8 \<le> sint bitrateKbps"
  shows "\<exists>v. calculateSegmentTime chunkSize bitrateKbps = Inr v
           \<and> sint v * rateBytesPerSecond bitrateKbps \<le> sint chunkSize
           \<and> sint chunkSize < (sint v + 1) * rateBytesPerSecond bitrateKbps"
proof -
  from assms(1) have c0: "0 \<le> sint chunkSize" by simp
  obtain v where v: "calculateSegmentTime chunkSize bitrateKbps = Inr v"
      "sint v = (sint chunkSize div 1024) div (sint bitrateKbps div 8)"
    using calculateSegmentTime_value [OF c0 assms(2)] by auto
  have r0: "0 < sint bitrateKbps div 8" using assms(2) by linarith
  have rate: "rateBytesPerSecond bitrateKbps = 1024 * (sint bitrateKbps div 8)"
    using assms(2) by (simp add: rateBytesPerSecond_def sdiv_nonneg_pos)
  show ?thesis
    using v floor_quotient_maximal [OF c0 r0] by (simp add: rate)
qed

theorem calculateSegmentTime_maximal_witness:
  "0 < sint (51380224 :: int64) \<and> 8 \<le> sint (128 :: int64)
   \<and> calculateSegmentTime 51380224 128 = Inr 3136
   \<and> sint (3136 :: int64) * rateBytesPerSecond 128 \<le> sint (51380224 :: int64)
   \<and> sint (51380224 :: int64) < (sint (3136 :: int64) + 1) * rateBytesPerSecond 128"
proof -
  have a: "0 < sint (51380224 :: int64)" and b: "8 \<le> sint (128 :: int64)" by simp_all
  have c: "calculateSegmentTime 51380224 128 = Inr 3136"
    by (simp add: calculateSegmentTime_def int64_div_def signed_divide_int_def)
  from calculateSegmentTime_maximal [OF a b] c a b show ?thesis by auto
qed

text \<open>
  C1 as stated fails: at a bit rate of 7 (and at every rate from 1 to 7) the rate in
  kilobytes is \<open>7 / 8 = 0\<close> and the last division panics, so no duration is returned;
  and at a bit rate of 12 the duration returned for the shipped budget of 49 MiB is
  50176 seconds, which at the exact byte rate of 12 kilobits per second (1500 bytes
  per second) is more than the budget holds.
\<close>

theorem calculateSegmentTime_maximal_counterexample:
  "0 < sint (51380224 :: int64) \<and> 0 < sint (7 :: int64)
   \<and> calculateSegmentTime 51380224 7 = Inl DivideByZero
   \<and> calculateSegmentTime 51380224 12 = Inr 50176
   \<and> \<not> sint (50176 :: int64) * (12 * 1000 div 8) \<le> sint (51380224 :: int64)"
  by (simp add: calculateSegmentTime_def int64_div_def signed_divide_int_def)

text \<open>
  C2 (as amended).  When the ffmpeg call succeeds and the probe finds no part file
  (part 0 does not exist afterwards), \<open>splitFile\<close> returns the empty list of parts and
  no error: the outcome is success with an empty part set.
\<close>

theorem splitFile_zero_parts_is_success:
  assumes "calculateSegmentTime chunkSize bitrateKbps = Inr segmentTime"
    and "command e w ''ffmpeg'' (ffmpeg_args filePath segmentTime) = (None, fs)"
    and "map_of fs (partName filePath 0) = None"
  shows "splitFile e filePath chunkSize bitrateKbps w
           = Inr (([], None),
                  \<lparr>files = fs,
                   trace = trace w @ [Exec ''ffmpeg'' (ffmpeg_args filePath segmentTime) None,
                                      Exec ''test'' [''-f'', partName filePath 0]
                                        (test_error e
                                           \<lparr>files = fs,
                                            trace = trace w
                                              @ [Exec ''ffmpeg''
                                                   (ffmpeg_args filePath segmentTime) None]\<rparr>
                                           (partName filePath 0))]\<rparr>)"
proof -
  let ?w1 = "\<lparr>files = fs, trace = trace w @ [Exec ''ffmpeg'' (ffmpeg_args filePath segmentTime) None]\<rparr>"
  have "\<not> file_exists ?w1 (partName filePath 0)"
    using assms(3) by (simp add: file_exists_def)
  then have "test_error e ?w1 (partName filePath 0) \<noteq> None"
    by (rule test_error_missing)
  then have "splitFile_probe e filePath 0 [] ?w1
      = ([], ?w1\<lparr>trace := trace ?w1
                 @ [Exec ''test'' [''-f'', partName filePath 0]
                      (test_error e ?w1 (partName filePath 0))]\<rparr>)"
    by (simp add: splitFile_probe.simps [of e filePath 0 "[]" ?w1] test_f_eq Let_def)
  then show ?thesis
    using assms(1,2) by (simp add: splitFile_def exec_Command_def)
qed

theorem splitFile_zero_parts_is_success_witness:
  "calculateSegmentTime 1048576 64 = Inr 128
   \<and> command (example_env [] [] []) \<lparr>files = [(''b.mp3'', 2000000)], trace = []\<rparr> ''ffmpeg''
        (ffmpeg_args ''b.mp3'' 128) = (None, [(''b.mp3'', 2000000)])
   \<and> map_of [(''b.mp3'', 2000000 :: int64)] (partName ''b.mp3'' 0) = None
   \<and> splitFile (example_env [] [] []) ''b.mp3'' 1048576 64
        \<lparr>files = [(''b.mp3'', 2000000)], trace = []\<rparr>
      = Inr (([], None),
             \<lparr>files = [(''b.mp3'', 2000000)],
              trace = [Exec ''ffmpeg'' (ffmpeg_args ''b.mp3'' 128) None,
                       Exec ''test'' [''-f'', partName ''b.mp3'' 0] (Some ''exit status 1'')]\<rparr>)"
proof -
  have a: "calculateSegmentTime 1048576 64 = Inr 128"
    by (simp add: calculateSegmentTime_def int64_div_def signed_divide_int_def)
  have b: "command (example_env [] [] []) \<lparr>files = [(''b.mp3'', 2000000)], trace = []\<rparr> ''ffmpeg''
        (ffmpeg_args ''b.mp3'' 128) = (None, [(''b.mp3'', 2000000)])"
    by (simp add: example_env_def)
  have c: "map_of [(''b.mp3'', 2000000 :: int64)] (partName ''b.mp3'' 0) = None"
    by (simp add: partName_def)
  have d: "test_error (example_env [] [] [])
      \<lparr>files = [(''b.mp3'', 2000000)],
       trace = trace \<lparr>files = [(''b.mp3'', 2000000)], trace = []\<rparr>
         @ [Exec ''ffmpeg'' (ffmpeg_args ''b.mp3'' 128) None]\<rparr>
      (partName ''b.mp3'' 0) = Some ''exit status 1''"
    using c by (simp add: test_error_def example_env_def file_exists_def)
  from splitFile_zero_parts_is_success [OF a b c] a b c show ?thesis
    unfolding d by simp
qed

text \<open>
  C2 as stated fails: with an ffmpeg that succeeds and writes nothing, \<open>splitFile\<close>
  returns no parts and a nil error, and \<open>checkAndSendFile\<close> then returns nil without
  having sent anything.
\<close>

theorem splitFile_zero_parts_counterexample:
  "splitFile (example_env [] [] []) ''a.mp3'' maxFileSize bitrateKBps
       \<lparr>files = [(''a.mp3'', 60000000)], trace = []\<rparr>
     = Inr (([], None),
         \<lparr>files = [(''a.mp3'', 60000000)],
          trace = [Exec ''ffmpeg'' [''-i'', ''a.mp3'', ''-f'', ''segment'', ''-segment_time'', ''3136'',
                      ''-c'', ''copy'', ''a.mp3.part%03d.mp3''] None,
                   Exec ''test'' [''-f'', ''a.mp3.part000.mp3''] (Some ''exit status 1'')]\<rparr>)
   \<and> checkAndSendFile (example_env [] [] []) ''a.mp3'' 42
       \<lparr>files = [(''a.mp3'', 60000000)], trace = []\<rparr>
     = Inr (None,
         \<lparr>files = [(''a.mp3'', 60000000)],
          trace = [Stat ''a.mp3'',
                   Exec ''ffmpeg'' [''-i'', ''a.mp3'', ''-f'', ''segment'', ''-segment_time'', ''3136'',
                      ''-c'', ''copy'', ''a.mp3.part%03d.mp3''] None,
                   Exec ''test'' [''-f'', ''a.mp3.part000.mp3''] (Some ''exit status 1'')]\<rparr>)"
  by code_simp

text \<open>
  C3 (as amended).  Every run of the part-send loop of \<open>checkAndSendFile\<close> either
  sends and removes every part and returns nil, or there is an index \<open>k\<close> such that
  the parts before \<open>k\<close> were sent with success and removed, the send of part \<open>k\<close>
  failed and part \<open>k\<close> was removed, nothing after \<open>k\<close> was sent, and the error
  returned is "error sending file part: " followed by the cause of the failed send; the
  error carries no index.
\<close>

theorem sendParts_stops_at_first_failure:
  assumes "sendParts e partFiles chatID w = (r, w')"
  shows "(r = None \<and> trace w' = trace w @ delivery_events chatID partFiles)
       \<or> (\<exists>k cause. k < length partFiles
             \<and> trace w' = trace w @ delivery_events chatID (take k partFiles)
                   @ [Send (NewAudio chatID (partFiles ! k)) (Some cause),
                      Remove (partFiles ! k)]
             \<and> r = Some (''error sending file part: '' @ cause))"
  using sendParts_shape [OF assms] by (auto simp: delivery_events_def)

theorem sendParts_stops_at_first_failure_witness:
  "sendParts (example_env [''c''] [] []) [''a'', ''b'', ''c'', ''d'', ''e''] 42 \<lparr>files = [], trace = []\<rparr>
     = (Some ''error sending file part: Request Entity Too Large'',
        \<lparr>files = [],
         trace = [Send (NewAudio 42 ''a'') None, Remove ''a'',
                  Send (NewAudio 42 ''b'') None, Remove ''b'',
                  Send (NewAudio 42 ''c'') (Some ''Request Entity Too Large''), Remove ''c'']\<rparr>)
   \<and> (\<exists>k cause. k < length [''a'', ''b'', ''c'', ''d'', ''e'']
         \<and> [Send (NewAudio 42 ''a'') None, Remove ''a'',
             Send (NewAudio 42 ''b'') None, Remove ''b'',
             Send (NewAudio 42 ''c'') (Some ''Request Entity Too Large''), Remove ''c'']
            = delivery_events 42 (take k [''a'', ''b'', ''c'', ''d'', ''e''])
              @ [Send (NewAudio 42 ([''a'', ''b'', ''c'', ''d'', ''e''] ! k)) (Some cause),
                 Remove ([''a'', ''b'', ''c'', ''d'', ''e''] ! k)]
         \<and> ''error sending file part: Request Entity Too Large''
            = ''error sending file part: '' @ cause)"
proof -
  have a: "sendParts (example_env [''c''] [] []) [''a'', ''b'', ''c'', ''d'', ''e''] 42
             \<lparr>files = [], trace = []\<rparr>
     = (Some ''error sending file part: Request Entity Too Large'',
        \<lparr>files = [],
         trace = [Send (NewAudio 42 ''a'') None, Remove ''a'',
                  Send (NewAudio 42 ''b'') None, Remove ''b'',
                  Send (NewAudio 42 ''c'') (Some ''Request Entity Too Large''), Remove ''c'']\<rparr>)"
    by code_simp
  from sendParts_stops_at_first_failure [OF a] a show ?thesis by simp
qed

text \<open>
  C3 as stated fails in its last part: a run whose first failed send is part 0 and a
  run whose first failed send is part 1 return the same error, so the error does not
  identify the index.
\<close>

theorem delivery_failure_index_counterexample:
  "fst (sendParts (example_env [''a''] [] []) [''a'', ''b''] 42 \<lparr>files = [], trace = []\<rparr>)
     = Some ''error sending file part: Request Entity Too Large''
   \<and> fst (sendParts (example_env [''b''] [] []) [''a'', ''b''] 42 \<lparr>files = [], trace = []\<rparr>)
     = Some ''error sending file part: Request Entity Too Large''
   \<and> trace (snd (sendParts (example_env [''a''] [] []) [''a'', ''b''] 42 \<lparr>files = [], trace = []\<rparr>))
     = [Send (NewAudio 42 ''a'') (Some ''Request Entity Too Large''), Remove ''a'']
   \<and> trace (snd (sendParts (example_env [''b''] [] []) [''a'', ''b''] 42 \<lparr>files = [], trace = []\<rparr>))
     = [Send (NewAudio 42 ''a'') None, Remove ''a'',
        Send (NewAudio 42 ''b'') (Some ''Request Entity Too Large''), Remove ''b'']"
  by code_simp

text \<open>
  C4 (as amended).  \<open>calculateSegmentTime\<close> has no error result of its own.  It
  panics with an integer division by zero exactly when the bit rate lies in \<open>-7..7\<close>
  (the rate in kilobytes is then 0).  For a budget that is not negative and a bit
  rate of at least 8 it returns a duration that is not negative, and that is 0 exactly
  when the budget in kilobytes is smaller than the rate in kilobytes; for a bit rate of
  at most -8 it returns a duration that is not positive.
\<close>

theorem calculateSegmentTime_unguarded:
  "(calculateSegmentTime chunkSize bitrateKbps = Inl DivideByZero
      \<longleftrightarrow> - 8 < sint bitrateKbps \<and> sint bitrateKbps < 8)
   \<and> (0 \<le> sint chunkSize \<and> 8 \<le> sint bitrateKbps \<longrightarrow>
        (\<exists>v. calculateSegmentTime chunkSize bitrateKbps = Inr v \<and> 0 \<le> sint v
           \<and> (v = 0 \<longleftrightarrow> sint chunkSize div 1024 < sint bitrateKbps div 8)))
   \<and> (0 \<le> sint chunkSize \<and> sint bitrateKbps \<le> - 8 \<longrightarrow>
        (\<exists>v. calculateSegmentTime chunkSize bitrateKbps = Inr v \<and> sint v \<le> 0))"
proof (intro conjI impI)
  show "calculateSegmentTime chunkSize bitrateKbps = Inl DivideByZero
          \<longleftrightarrow> - 8 < sint bitrateKbps \<and> sint bitrateKbps < 8"
    by (rule calculateSegmentTime_panic_iff)
next
  assume h: "0 \<le> sint chunkSize \<and> 8 \<le> sint bitrateKbps"
  then obtain v where v: "calculateSegmentTime chunkSize bitrateKbps = Inr v"
      "sint v = (sint chunkSize div 1024) div (sint bitrateKbps div 8)"
    using calculateSegmentTime_value by blast
  have r0: "0 < sint bitrateKbps div 8" using h by linarith
  have k0: "0 \<le> sint chunkSize div 1024" using h by linarith
  have nn: "0 \<le> sint v"
    using v(2) k0 r0 by (simp add: pos_imp_zdiv_nonneg_iff)
  have "sint v = 0 \<longleftrightarrow> sint chunkSize div 1024 < sint bitrateKbps div 8"
    using v(2) k0 r0 by (auto simp: zdiv_eq_0_iff)
  moreover have "v = 0 \<longleftrightarrow> sint v = 0"
    using signed_eq_0_iff [of v, where ?'a = int] by simp
  ultimately show "\<exists>v. calculateSegmentTime chunkSize bitrateKbps = Inr v \<and> 0 \<le> sint v
           \<and> (v = 0 \<longleftrightarrow> sint chunkSize div 1024 < sint bitrateKbps div 8)"
    using v(1) nn by auto
next
  assume h: "0 \<le> sint chunkSize \<and> sint bitrateKbps \<le> - 8"
  then obtain v where v: "calculateSegmentTime chunkSize bitrateKbps = Inr v"
      "sint v = - ((sint chunkSize div 1024) div (- sint bitrateKbps div 8))"
    using calculateSegmentTime_value_neg_rate by blast
  have r0: "0 < - sint bitrateKbps div 8" using h by linarith
  have k0: "0 \<le> sint chunkSize div 1024" using h by linarith
  have "0 \<le> (sint chunkSize div 1024) div (- sint bitrateKbps div 8)"
    using k0 r0 by (simp add: pos_imp_zdiv_nonneg_iff)
  then show "\<exists>v. calculateSegmentTime chunkSize bitrateKbps = Inr v \<and> sint v \<le> 0"
    using v by auto
qed

theorem calculateSegmentTime_unguarded_witness:
  "calculateSegmentTime 51380224 0 = Inl DivideByZero
   \<and> 0 \<le> sint (1023 :: int64) \<and> 8 \<le> sint (128 :: int64)
   \<and> calculateSegmentTime 1023 128 = Inr 0
   \<and> 0 \<le> sint (51380224 :: int64) \<and> sint (- 128 :: int64) \<le> - 8
   \<and> (\<exists>v. calculateSegmentTime 51380224 (- 128) = Inr v \<and> sint v \<le> 0)"
proof -
  have h1: "0 \<le> sint (1023 :: int64) \<and> 8 \<le> sint (128 :: int64)" by simp
  have h2: "0 \<le> sint (51380224 :: int64) \<and> sint (- 128 :: int64) \<le> - 8" by simp
  have p: "calculateSegmentTime 51380224 0 = Inl DivideByZero"
    using calculateSegmentTime_unguarded [of 51380224 0] by simp
  have z: "calculateSegmentTime 1023 128 = Inr 0"
    using calculateSegmentTime_unguarded [of 1023 128] h1 by auto
  have n: "\<exists>v. calculateSegmentTime 51380224 (- 128) = Inr v \<and> sint v \<le> 0"
    using calculateSegmentTime_unguarded [of 51380224 "- 128"] h2 by blast
  from p z n h1 h2 show ?thesis by simp
qed

text \<open>
  C4 as stated fails: a negative rate is not rejected (the duration returned for -128
  is -3136 seconds), and a budget below one second of audio is not rejected either
  (the duration returned for 1023 bytes is 0 seconds).
\<close>

theorem calculateSegmentTime_guards_counterexample:
  "calculateSegmentTime 51380224 (- 128) = Inr (- 3136)
   \<and> calculateSegmentTime 1023 128 = Inr 0"
  by (simp add: calculateSegmentTime_def int64_div_def signed_divide_int_def)

text \<open>
  C5.  Whatever the outcome \<open>err\<close> of the send, \<open>sendFile\<close> does exactly two things, in
  this order: the send attempt and the removal of the local file; the file does not
  exist afterwards.
\<close>

theorem sendFile_removes_after_send:
  assumes "sendFile e filePath chatID w = (err, w')"
  shows "trace w' = trace w @ [Send (NewAudio chatID filePath) err, Remove filePath]
       \<and> \<not> file_exists w' filePath"
  using assms by (auto simp: sendFile_eq file_exists_def map_of_filter_removed)

theorem sendFile_removes_after_send_witness:
  "sendFile (example_env [''a.mp3''] [] []) ''a.mp3'' 42 \<lparr>files = [(''a.mp3'', 7)], trace = []\<rparr>
     = (Some ''Request Entity Too Large'',
        \<lparr>files = [],
         trace = [Send (NewAudio 42 ''a.mp3'') (Some ''Request Entity Too Large''),
                  Remove ''a.mp3'']\<rparr>)
   \<and> \<not> file_exists \<lparr>files = [], trace = [Send (NewAudio 42 ''a.mp3'') (Some ''Request Entity Too Large''),
                  Remove ''a.mp3'']\<rparr> ''a.mp3''
   \<and> sendFile (example_env [] [] []) ''a.mp3'' 42 \<lparr>files = [(''a.mp3'', 7)], trace = []\<rparr>
     = (None, \<lparr>files = [], trace = [Send (NewAudio 42 ''a.mp3'') None, Remove ''a.mp3'']\<rparr>)"
proof -
  have a: "sendFile (example_env [''a.mp3''] [] []) ''a.mp3'' 42
             \<lparr>files = [(''a.mp3'', 7)], trace = []\<rparr>
     = (Some ''Request Entity Too Large'',
        \<lparr>files = [],
         trace = [Send (NewAudio 42 ''a.mp3'') (Some ''Request Entity Too Large''),
                  Remove ''a.mp3'']\<rparr>)"
    by code_simp
  have b: "sendFile (example_env [] [] []) ''a.mp3'' 42 \<lparr>files = [(''a.mp3'', 7)], trace = []\<rparr>
     = (None, \<lparr>files = [], trace = [Send (NewAudio 42 ''a.mp3'') None, Remove ''a.mp3'']\<rparr>)"
    by code_simp
  from sendFile_removes_after_send [OF a] a b show ?thesis by simp
qed

text \<open>
  C6.  The size gate of \<open>checkAndSendFile\<close> compares with a strict inequality.  A file
  whose size is at most \<open>maxFileSize\<close> (in particular exactly \<open>maxFileSize\<close>) is sent
  directly: after the stat the file itself is sent and removed, and ffmpeg is not run.
  A file whose size is greater than \<open>maxFileSize\<close> (in particular \<open>maxFileSize + 1\<close>)
  is split: the first thing after the stat is the ffmpeg call.
\<close>

theorem size_gate_is_strict:
  assumes "map_of (files w) filePath = Some fileSize"
  shows "(sint fileSize \<le> sint maxFileSize \<longrightarrow>
            (\<exists>r s w'. checkAndSendFile e filePath chatID w = Inr (r, w')
               \<and> trace w' = trace w @ [Stat filePath, Send (NewAudio chatID filePath) s,
                                         Remove filePath]))
       \<and> (sint maxFileSize < sint fileSize \<longrightarrow>
            (\<exists>r s rest w'. checkAndSendFile e filePath chatID w = Inr (r, w')
               \<and> trace w' = trace w @ [Stat filePath,
                                         Exec ''ffmpeg'' (ffmpeg_args filePath 3136) s] @ rest))"
proof (cases rule: checkAndSendFile_cases [of w filePath e chatID])
  case stat_failed
  with assms show ?thesis by simp
next
  case (direct sz s)
  with assms have "\<not> sint maxFileSize < sint fileSize" by (simp add: word_sless_alt)
  moreover have "\<exists>r s w'. checkAndSendFile e filePath chatID w = Inr (r, w')
               \<and> trace w' = trace w @ [Stat filePath, Send (NewAudio chatID filePath) s,
                                         Remove filePath]"
    using direct(3) by auto
  ultimately show ?thesis by simp
next
  case (split_failed sz cause fs)
  with assms have "\<not> sint fileSize \<le> sint maxFileSize" by (simp add: word_sless_alt)
  moreover have "\<exists>r s rest w'. checkAndSendFile e filePath chatID w = Inr (r, w')
               \<and> trace w' = trace w @ [Stat filePath,
                                         Exec ''ffmpeg'' (ffmpeg_args filePath 3136) s] @ rest"
    using split_failed(4) by auto
  ultimately show ?thesis by simp
next
  case (parts_sent sz fs n c0)
  with assms have "\<not> sint fileSize \<le> sint maxFileSize" by (simp add: word_sless_alt)
  moreover have "\<exists>r s rest w'. checkAndSendFile e filePath chatID w = Inr (r, w')
               \<and> trace w' = trace w @ [Stat filePath,
                                         Exec ''ffmpeg'' (ffmpeg_args filePath 3136) s] @ rest"
    using parts_sent(4) by auto
  ultimately show ?thesis by simp
next
  case (part_failed sz fs n c0 k cause)
  with assms have "\<not> sint fileSize \<le> sint maxFileSize" by (simp add: word_sless_alt)
  moreover have "\<exists>r s rest w'. checkAndSendFile e filePath chatID w = Inr (r, w')
               \<and> trace w' = trace w @ [Stat filePath,
                                         Exec ''ffmpeg'' (ffmpeg_args filePath 3136) s] @ rest"
    using part_failed(5) by auto
  ultimately show ?thesis by simp
qed

theorem size_gate_is_strict_witness:
  "sint maxFileSize \<le> sint maxFileSize
   \<and> checkAndSendFile (example_env [] [] []) ''a.mp3'' 42
        \<lparr>files = [(''a.mp3'', maxFileSize)], trace = []\<rparr>
       = Inr (None, \<lparr>files = [],
                     trace = [Stat ''a.mp3'', Send (NewAudio 42 ''a.mp3'') None, Remove ''a.mp3'']\<rparr>)
   \<and> sint maxFileSize < sint (maxFileSize + 1)
   \<and> (\<exists>r s rest w'. checkAndSendFile (example_env [] [] []) ''a.mp3'' 42
                       \<lparr>files = [(''a.mp3'', maxFileSize + 1)], trace = []\<rparr> = Inr (r, w')
         \<and> trace w' = [Stat ''a.mp3'', Exec ''ffmpeg'' (ffmpeg_args ''a.mp3'' 3136) s] @ rest)"
proof -
  have a: "map_of (files \<lparr>files = [(''a.mp3'', maxFileSize)], trace = []\<rparr>) ''a.mp3''
             = Some maxFileSize" by simp
  have b: "map_of (files \<lparr>files = [(''a.mp3'', maxFileSize + 1)], trace = []\<rparr>) ''a.mp3''
             = Some (maxFileSize + 1)" by simp
  have c: "sint maxFileSize < sint (maxFileSize + 1)" by (simp add: maxFileSize_def)
  have d: "checkAndSendFile (example_env [] [] []) ''a.mp3'' 42
        \<lparr>files = [(''a.mp3'', maxFileSize)], trace = []\<rparr>
       = Inr (None, \<lparr>files = [],
                     trace = [Stat ''a.mp3'', Send (NewAudio 42 ''a.mp3'') None, Remove ''a.mp3'']\<rparr>)"
    by code_simp
  from size_gate_is_strict [OF a, of "example_env [] [] []" 42]
    size_gate_is_strict [OF b, of "example_env [] [] []" 42] c d
  show ?thesis by simp
qed




text \<open>
  C8.  When the trimmed text of the message fails \<open>isValidYouTubeURL\<close>,
  \<open>handleMessage\<close> sends the reply "Please send a valid YouTube video URL." and does
  nothing else: this reply is the only event it adds to the trace, so yt-dlp is not
  run, and the file system is unchanged.
\<close>

theorem invalid_url_is_rejected:
  assumes "\<not> isValidYouTubeURL (TrimSpace (Text message))"
  shows "handleMessage e message w
           = Inr (w\<lparr>trace := trace w
                      @ [Send (NewMessage (ChatID message) ''Please send a valid YouTube video URL.'')
                           (transport e w (NewMessage (ChatID message)
                                             ''Please send a valid YouTube video URL.''))]\<rparr>)"
  using assms by (simp add: handleMessage_def reply_def bot_Send_def Let_def)

theorem invalid_url_is_rejected_witness:
  "\<not> isValidYouTubeURL (TrimSpace (Text \<lparr>Text = ''not a url'', ChatID = 42\<rparr>))
   \<and> handleMessage (example_env [] [(''download_42_1000.mp3'', 600)] [])
        \<lparr>Text = ''not a url'', ChatID = 42\<rparr> \<lparr>files = [], trace = []\<rparr>
     = Inr \<lparr>files = [],
            trace = [Send (NewMessage 42 ''Please send a valid YouTube video URL.'') None]\<rparr>"
proof -
  have a: "\<not> isValidYouTubeURL (TrimSpace (Text \<lparr>Text = ''not a url'', ChatID = 42\<rparr>))"
    by code_simp
  from invalid_url_is_rejected [OF a, of "example_env [] [(''download_42_1000.mp3'', 600)] []"
      "\<lparr>files = [], trace = []\<rparr>"] a
  show ?thesis by (simp add: example_env_def)
qed

text \<open>
  C9.  Take a run of \<open>handleMessage\<close> that went down the split path for the source
  file \<open>src\<close> (its events contain the successful ffmpeg call on \<open>src\<close>) and in which no
  send of an audio file failed.  Then no event of the run removes \<open>src\<close>: the files
  removed are the parts of \<open>src\<close>, in order, and then the \<open>.m4a\<close> path of the same
  download.  If ffmpeg leaves its input in place, \<open>src\<close> is still on disk when the
  request is over.
\<close>

theorem source_file_survives_split:
  assumes run: "handleMessage e message w = Inr w'"
    and evs: "trace w' = trace w @ evs"
    and split: "Exec ''ffmpeg'' (ffmpeg_args src segmentTime) None \<in> set evs"
    and ok: "failed_sends evs = []"
    and keep: "\<forall>w0. file_exists w0 src \<longrightarrow>
                 map_of (snd (command e w0 ''ffmpeg'' (ffmpeg_args src segmentTime))) src \<noteq> None"
  shows "Remove src \<notin> set evs
       \<and> (\<exists>stem n. src = stem @ ''.mp3''
             \<and> removed evs = map (partName src) [0..<n] @ [stem @ ''.m4a''])
       \<and> file_exists w' src"
proof (cases "isValidYouTubeURL (TrimSpace (Text message))")
  case False
  from False run evs split show ?thesis by (auto simp: handleMessage_def reply_eq Let_def)
next
  case True
  let ?chat = "ChatID message"
  let ?url = "TrimSpace (Text message)"
  define r0 where "r0 = transport e w (NewMessage ?chat ''Starting to process your request...'')"
  define w1 where "w1 = w\<lparr>trace := trace w @ [Send (NewMessage ?chat ''Starting to process your request...'') r0]\<rparr>"
  define stem where "stem = download_stem ?chat (clock e w1)"
  obtain err fs where cmd: "command e w1 ''yt-dlp'' (yt_dlp_args (stem @ ''.%(ext)s'') ?url) = (err, fs)"
    by (cases "command e w1 ''yt-dlp'' (yt_dlp_args (stem @ ''.%(ext)s'') ?url)")
  define w2 where "w2 = \<lparr>files = fs, trace = trace w1 @ [Exec ''yt-dlp'' (yt_dlp_args (stem @ ''.%(ext)s'') ?url) err]\<rparr>"
  note hm = handleMessage_accepted [OF True w1_def r0_def stem_def cmd w2_def]
  have tw2: "trace w2 = trace w @ [Send (NewMessage ?chat ''Starting to process your request...'') r0,
      Exec ''yt-dlp'' (yt_dlp_args (stem @ ''.%(ext)s'') ?url) err]"
    by (simp add: w2_def w1_def)
  have fw2: "files w2 = fs" by (simp add: w2_def)
  let ?mp3 = "stem @ ''.mp3''"
  let ?m4a = "stem @ ''.m4a''"
  show ?thesis
  proof (cases err)
    case (Some c)
    with hm run have "w' = reply e ?chat (''Error downloading mp3: '' @ c) w2" by simp
    with evs tw2 Some split show ?thesis by (auto simp: reply_eq)
  next
    case None
    show ?thesis
    proof (cases rule: checkAndSendFile_cases [of w2 ?mp3 e ?chat])
      case stat_failed
      with hm run None have "w' = os_Remove ?m4a (reply e ?chat
          (''Error sending mp3: '' @ ''could not check file size: '' @ ''stat '' @ ?mp3 @ '': no such file or directory'')
          (w2\<lparr>trace := trace w2 @ [Stat ?mp3]\<rparr>))" by simp
      with evs tw2 split show ?thesis by (auto simp: reply_eq os_Remove_def)
    next
      case (direct sz s)
      with hm run None evs tw2 split show ?thesis
        by (cases s) (auto simp: reply_eq os_Remove_def)
    next
      case (split_failed sz cause fs')
      with hm run None evs tw2 split show ?thesis
        by (auto simp: reply_eq os_Remove_def)
    next
      case (part_failed sz fs' n c0 k cause)
      with hm run None evs tw2 have "evs = [Send (NewMessage ?chat ''Starting to process your request...'') r0,
            Exec ''yt-dlp'' (yt_dlp_args (stem @ ''.%(ext)s'') ?url) None,
            Stat ?mp3, Exec ''ffmpeg'' (ffmpeg_args ?mp3 3136) None]
          @ probe_events ?mp3 n c0
          @ delivery_events ?chat (take k (map (partName ?mp3) [0..<n]))
          @ [Send (NewAudio ?chat (partName ?mp3 k)) (Some cause), Remove (partName ?mp3 k),
             Send (NewMessage ?chat (''Error sending mp3: '' @ ''error sending file part: '' @ cause))
               (transport e \<lparr>files = filter (\<lambda>f. fst f \<notin> set (take (Suc k) (map (partName ?mp3) [0..<n]))) fs',
                 trace = trace w2 @ [Stat ?mp3, Exec ''ffmpeg'' (ffmpeg_args ?mp3 3136) None]
                           @ probe_events ?mp3 n c0
                           @ delivery_events ?chat (take k (map (partName ?mp3) [0..<n]))
                           @ [Send (NewAudio ?chat (partName ?mp3 k)) (Some cause),
                              Remove (partName ?mp3 k)]\<rparr>
                  (NewMessage ?chat (''Error sending mp3: '' @ ''error sending file part: '' @ cause))),
             Remove ?m4a]"
        by (simp add: reply_eq os_Remove_def)
      then have "failed_sends evs \<noteq> []"
        by (simp add: failed_sends_append) (simp add: failed_sends_def)
      with ok show ?thesis by simp
    next
      case (parts_sent sz fs' n c0)
      let ?ps = "map (partName ?mp3) [0..<n]"
      from parts_sent(4) hm run None have w': "w' = os_Remove ?m4a
          \<lparr>files = filter (\<lambda>f. fst f \<notin> set ?ps) fs',
           trace = trace w2 @ [Stat ?mp3, Exec ''ffmpeg'' (ffmpeg_args ?mp3 3136) None]
                     @ probe_events ?mp3 n c0 @ delivery_events ?chat ?ps\<rparr>"
        by simp
      with evs tw2 None have e: "evs = [Send (NewMessage ?chat ''Starting to process your request...'') r0,
            Exec ''yt-dlp'' (yt_dlp_args (stem @ ''.%(ext)s'') ?url) None,
            Stat ?mp3, Exec ''ffmpeg'' (ffmpeg_args ?mp3 3136) None]
          @ probe_events ?mp3 n c0 @ delivery_events ?chat ?ps @ [Remove ?m4a]"
        by (simp add: os_Remove_def)
      from split have "ffmpeg_args src segmentTime = ffmpeg_args ?mp3 3136"
        unfolding e by (auto simp: ffmpeg_not_probe ffmpeg_not_delivery)
      then have src: "src = ?mp3" and args: "ffmpeg_args ?mp3 3136 = ffmpeg_args src segmentTime"
        by (auto dest: ffmpeg_args_source)
      have notpart: "?mp3 \<notin> set ?ps" by (rule source_not_part)
      have neq: "?mp3 \<noteq> ?m4a" by simp
      have c1: "Remove src \<notin> set evs"
        unfolding e src using notpart neq
        by (simp add: Remove_not_probe Remove_in_delivery)
      have r1: "removed [Send (NewMessage ?chat ''Starting to process your request...'') r0,
            Exec ''yt-dlp'' (yt_dlp_args (stem @ ''.%(ext)s'') ?url) None,
            Stat ?mp3, Exec ''ffmpeg'' (ffmpeg_args ?mp3 3136) None] = []"
        and r2: "removed [Remove ?m4a] = [?m4a]"
        by (simp_all add: removed_def)
      have c2: "removed evs = map (partName src) [0..<n] @ [?m4a]"
        unfolding e src removed_append r1 r2 removed_probe removed_delivery by simp
      have "file_exists (w2\<lparr>trace := trace w2 @ [Stat ?mp3]\<rparr>) ?mp3"
        using parts_sent(1) by (simp add: file_exists_def)
      with keep have "map_of (snd (command e (w2\<lparr>trace := trace w2 @ [Stat ?mp3]\<rparr>) ''ffmpeg''
          (ffmpeg_args src segmentTime))) src \<noteq> None"
        unfolding src by blast
      then have kept: "map_of fs' ?mp3 \<noteq> None"
        using parts_sent(3) unfolding args src by simp
      have "files w' = filter (\<lambda>f. fst f \<notin> set ?ps \<and> fst f \<noteq> ?m4a) fs'"
        unfolding w' by (simp add: os_Remove_def)
      then have "map_of (files w') ?mp3 = map_of fs' ?mp3"
        using map_of_filter_keeps [of "\<lambda>q. q \<notin> set ?ps \<and> q \<noteq> ?m4a" ?mp3 fs'] notpart neq
        by simp
      with kept have c3: "file_exists w' src" by (simp add: file_exists_def src)
      from c1 c2 c3 src show ?thesis by blast
    qed
  qed
qed

theorem source_file_survives_split_witness:
  "handleMessage
      (example_env [] [(''download_42_1000.mp3'', 60000000)]
         [(''download_42_1000.mp3.part000.mp3'', 40000000),
          (''download_42_1000.mp3.part001.mp3'', 20000000)])
      \<lparr>Text = '' https://youtu.be/abc  '', ChatID = 42\<rparr> \<lparr>files = [], trace = []\<rparr>
    = Inr \<lparr>files = [(''download_42_1000.mp3'', 60000000)],
           trace =
             [Send (NewMessage 42 ''Starting to process your request...'') None,
              Exec ''yt-dlp'' [''-x'', ''--audio-format'', ''mp3'', ''--audio-quality'', ''128K'',
                 ''-o'', ''download_42_1000.%(ext)s'', ''https://youtu.be/abc''] None,
              Stat ''download_42_1000.mp3'',
              Exec ''ffmpeg'' [''-i'', ''download_42_1000.mp3'', ''-f'', ''segment'',
                 ''-segment_time'', ''3136'', ''-c'', ''copy'',
                 ''download_42_1000.mp3.part%03d.mp3''] None,
              Exec ''test'' [''-f'', ''download_42_1000.mp3.part000.mp3''] None,
              Exec ''test'' [''-f'', ''download_42_1000.mp3.part001.mp3''] None,
              Exec ''test'' [''-f'', ''download_42_1000.mp3.part002.mp3''] (Some ''exit status 1''),
              Send (NewAudio 42 ''download_42_1000.mp3.part000.mp3'') None,
              Remove ''download_42_1000.mp3.part000.mp3'',
              Send (NewAudio 42 ''download_42_1000.mp3.part001.mp3'') None,
              Remove ''download_42_1000.mp3.part001.mp3'',
              Remove ''download_42_1000.m4a'']\<rparr>
   \<and> file_exists \<lparr>files = [(''download_42_1000.mp3'', 60000000)], trace = []\<rparr>
         ''download_42_1000.mp3''"
proof -
  let ?e = "example_env [] [(''download_42_1000.mp3'', 60000000)]
         [(''download_42_1000.mp3.part000.mp3'', 40000000),
          (''download_42_1000.mp3.part001.mp3'', 20000000)]"
  let ?evs = "[Send (NewMessage 42 ''Starting to process your request...'') None,
              Exec ''yt-dlp'' [''-x'', ''--audio-format'', ''mp3'', ''--audio-quality'', ''128K'',
                 ''-o'', ''download_42_1000.%(ext)s'', ''https://youtu.be/abc''] None,
              Stat ''download_42_1000.mp3'',
              Exec ''ffmpeg'' [''-i'', ''download_42_1000.mp3'', ''-f'', ''segment'',
                 ''-segment_time'', ''3136'', ''-c'', ''copy'',
                 ''download_42_1000.mp3.part%03d.mp3''] None,
              Exec ''test'' [''-f'', ''download_42_1000.mp3.part000.mp3''] None,
              Exec ''test'' [''-f'', ''download_42_1000.mp3.part001.mp3''] None,
              Exec ''test'' [''-f'', ''download_42_1000.mp3.part002.mp3''] (Some ''exit status 1''),
              Send (NewAudio 42 ''download_42_1000.mp3.part000.mp3'') None,
              Remove ''download_42_1000.mp3.part000.mp3'',
              Send (NewAudio 42 ''download_42_1000.mp3.part001.mp3'') None,
              Remove ''download_42_1000.mp3.part001.mp3'',
              Remove ''download_42_1000.m4a'']"
  let ?w' = "\<lparr>files = [(''download_42_1000.mp3'', 60000000 :: int64)], trace = ?evs\<rparr>"
  have run: "handleMessage ?e \<lparr>Text = '' https://youtu.be/abc  '', ChatID = 42\<rparr>
      \<lparr>files = [], trace = []\<rparr> = Inr ?w'"
    by code_simp
  have evs: "trace ?w' = trace \<lparr>files = [], trace = []\<rparr> @ ?evs" by simp
  have args: "ffmpeg_args ''download_42_1000.mp3'' 3136
      = [''-i'', ''download_42_1000.mp3'', ''-f'', ''segment'',
                 ''-segment_time'', ''3136'', ''-c'', ''copy'',
                 ''download_42_1000.mp3.part%03d.mp3'']"
    by code_simp
  have split: "Exec ''ffmpeg'' (ffmpeg_args ''download_42_1000.mp3'' 3136) None \<in> set ?evs"
    unfolding args by simp
  have ok: "failed_sends ?evs = []" by (simp add: failed_sends_def)
  have keep: "\<forall>w0. file_exists w0 ''download_42_1000.mp3'' \<longrightarrow>
      map_of (snd (command ?e w0 ''ffmpeg'' (ffmpeg_args ''download_42_1000.mp3'' 3136)))
        ''download_42_1000.mp3'' \<noteq> None"
    by (simp add: example_env_def file_exists_def)
  from source_file_survives_split [OF run evs split ok keep]
  have "file_exists ?w' ''download_42_1000.mp3''" by blast
  then have "file_exists \<lparr>files = [(''download_42_1000.mp3'', 60000000)], trace = []\<rparr>
         ''download_42_1000.mp3''"
    by (simp add: file_exists_def)
  with run show ?thesis by simp
qed

text \<open>
  C10.  A text passes validation exactly when its trimmed form has
  "youtube.com/watch" or "youtu.be/" as a substring at some position; a URL of another
  host that carries one of them in its query string passes.
\<close>

theorem validation_is_substring_test:
  "(isValidYouTubeURL (TrimSpace text)
      \<longleftrightarrow> sublist ''youtube.com/watch'' (TrimSpace text) \<or> sublist ''youtu.be/'' (TrimSpace text))
   \<and> isValidYouTubeURL (TrimSpace ''  https://example.org/?next=youtube.com/watch  '')"
proof
  show "isValidYouTubeURL (TrimSpace text)
      \<longleftrightarrow> sublist ''youtube.com/watch'' (TrimSpace text) \<or> sublist ''youtu.be/'' (TrimSpace text)"
    by (simp only: isValidYouTubeURL_def Contains_iff_sublist)
next
  show "isValidYouTubeURL (TrimSpace ''  https://example.org/?next=youtube.com/watch  '')"
    by code_simp
qed

theorem validation_is_substring_test_witness:
  "isValidYouTubeURL (TrimSpace '' https://youtu.be/abc  '')
   \<and> (sublist ''youtube.com/watch'' (TrimSpace '' https://youtu.be/abc  '')
        \<or> sublist ''youtu.be/'' (TrimSpace '' https://youtu.be/abc  ''))"
proof -
  have "isValidYouTubeURL (TrimSpace '' https://youtu.be/abc  '')" by code_simp
  with validation_is_substring_test [of "'' https://youtu.be/abc  ''"] show ?thesis by blast
qed

end
